theory Spec2Isabelle
  imports Main "HOL-Library.Word" "HOL-Library.AList"
begin

section \<open>The SaveSMPL node: a shallow embedding of \<open>save_smpl_node.py\<close>\<close>

text \<open>
  The program is one method, \<open>SaveSMPL.save_smpl\<close>: it checks a parameter bundle,
  creates two parent directories, normalises two file names, converts every value
  of the \<open>global\<close> namespace to an array, writes the arrays with \<open>np.savez\<close>,
  builds a two-namespace record of the four required arrays, pickles it, and
  returns the absolute archive path with a summary. One \<open>try/except Exception\<close>
  wraps all of it.

  The method is modelled as a state-passing function over a \<open>world\<close> (a file
  system, the working directory, and the list of file-system effects performed so
  far). Every \<open>raise\<close> of the source, and every exception of a library call, is an
  \<open>Inl\<close> result. Python strings are byte strings in UTF-8.

  Library calls (\<open>pathlib\<close>, \<open>numpy\<close>, \<open>torch\<close>, \<open>pickle\<close>) are not part of the
  repository; they are modelled from their documented behaviour, for
  \<open>PurePosixPath\<close>, a POSIX file system, and numpy as of 2.4 (where \<open>np.savez\<close>
  has the parameter \<open>allow_pickle\<close>).
\<close>

subsection \<open>Strings\<close>

definition startswith :: "string \<Rightarrow> string \<Rightarrow> bool" where
  "startswith s pre = (take (length pre) s = pre)"

definition endswith :: "string \<Rightarrow> string \<Rightarrow> bool" where
  "endswith s suf = (length suf \<le> length s \<and> drop (length s - length suf) s = suf)"

text \<open>\<open>needle in s\<close> for strings: \<open>needle\<close> occurs in \<open>s\<close> as a contiguous run.\<close>

fun contains :: "string \<Rightarrow> string \<Rightarrow> bool" where
  "contains [] needle = (needle = [])"
| "contains (c # s) needle = (startswith (c # s) needle \<or> contains s needle)"

text \<open>\<open>str(n)\<close> for a non-negative integer.\<close>

definition digit_char :: "nat \<Rightarrow> char" where
  "digit_char d = ''0123456789'' ! d"

fun str_nat :: "nat \<Rightarrow> string" where
  "str_nat n = (if n < 10 then [digit_char n] else str_nat (n div 10) @ [digit_char (n mod 10)])"

declare str_nat.simps [simp del]

text \<open>
  \<open>repr(s)\<close> for a string of printable characters: single quotes, unless the
  string has a single quote and no double quote; the quote in use and the
  backslash are escaped.
\<close>

fun escape :: "char \<Rightarrow> string \<Rightarrow> string" where
  "escape q [] = []"
| "escape q (c # s) =
     (if c = q \<or> c = CHR 0x5C then CHR 0x5C # c # escape q s else c # escape q s)"

definition py_repr :: "string \<Rightarrow> string" where
  "py_repr s =
     (let q = (if CHR 0x27 \<in> set s \<and> CHR 0x22 \<notin> set s then CHR 0x22 else CHR 0x27)
      in q # escape q s @ [q])"

text \<open>\<open>sep.join(xs)\<close>, \<open>s.split(sep)\<close> for a one-character separator, and \<open>s.rfind(c)\<close>.\<close>

fun join :: "string \<Rightarrow> string list \<Rightarrow> string" where
  "join sep [] = []"
| "join sep [x] = x"
| "join sep (x # y # ys) = x @ sep @ join sep (y # ys)"

fun split :: "char \<Rightarrow> string \<Rightarrow> string list" where
  "split sep [] = [[]]"
| "split sep (c # s) =
     (if c = sep then [] # split sep s
      else (case split sep s of [] \<Rightarrow> [[c]] | x # xs \<Rightarrow> (c # x) # xs))"

definition rfind :: "string \<Rightarrow> char \<Rightarrow> int" where
  "rfind s c =
     (case filter (\<lambda>i. s ! i = c) (rev [0..<length s]) of [] \<Rightarrow> - 1 | i # _ \<Rightarrow> int i)"

subsection \<open>Exceptions\<close>

text \<open>
  The exceptions that the modelled operations raise. All of them derive from
  \<open>Exception\<close>, so the handler \<open>except Exception\<close> of \<open>save_smpl\<close> catches each of
  them. \<open>KeyboardInterrupt\<close> and \<open>SystemExit\<close>, which do not derive from
  \<open>Exception\<close>, are raised by no operation of the method and are outside the model.
  An \<open>OSError\<close> carries its errno and the file name.
\<close>

datatype errno = ENOENT | EACCES | EEXIST | ENOTDIR | EISDIR | ENOSPC | EROFS

datatype py_exception =
    ValueError string
  | KeyError string
  | TypeError string
  | AttributeError string
  | IndexError string
  | RuntimeError string
  | NotImplementedError string
  | OSError errno string

fun errno_num :: "errno \<Rightarrow> nat" where
  "errno_num ENOENT = 2"
| "errno_num EACCES = 13"
| "errno_num EEXIST = 17"
| "errno_num ENOTDIR = 20"
| "errno_num EISDIR = 21"
| "errno_num ENOSPC = 28"
| "errno_num EROFS = 30"

fun strerror :: "errno \<Rightarrow> string" where
  "strerror ENOENT = ''No such file or directory''"
| "strerror EACCES = ''Permission denied''"
| "strerror EEXIST = ''File exists''"
| "strerror ENOTDIR = ''Not a directory''"
| "strerror EISDIR = ''Is a directory''"
| "strerror ENOSPC = ''No space left on device''"
| "strerror EROFS = ''Read-only file system''"

text \<open>
  \<open>str(e)\<close>. A \<open>KeyError\<close> prints the \<open>repr\<close> of its argument, the other classes
  print the message itself.
\<close>

fun py_str :: "py_exception \<Rightarrow> string" where
  "py_str (ValueError m) = m"
| "py_str (KeyError m) = py_repr m"
| "py_str (TypeError m) = m"
| "py_str (AttributeError m) = m"
| "py_str (IndexError m) = m"
| "py_str (RuntimeError m) = m"
| "py_str (NotImplementedError m) = m"
| "py_str (OSError n f) =
     ''[Errno '' @ str_nat (errno_num n) @ ''] '' @ strerror n @ '': '' @ py_repr f"

subsection \<open>Paths (\<open>pathlib.PurePosixPath\<close>)\<close>

text \<open>
  A path is its root (\<open>''\<close>, \<open>/\<close> or \<open>//\<close>) and its components. Parsing drops empty
  components and \<open>.\<close>; exactly two leading slashes are kept as the root \<open>//\<close>.
  \<open>suffix\<close> is the one of Python up to 3.13 (a name that ends in a dot has the
  empty suffix).
\<close>

record ppath =
  root :: string
  parts :: "string list"

definition splitroot :: "string \<Rightarrow> string \<times> string" where
  "splitroot p =
     (if take 1 p \<noteq> ''/'' then ('''', p)
      else if take 1 (drop 1 p) \<noteq> ''/'' \<or> take 1 (drop 2 p) = ''/'' then (''/'', drop 1 p)
      else (''//'', drop 2 p))"

definition Path :: "string \<Rightarrow> ppath" where
  "Path s =
     (case splitroot s of
        (r, rel) \<Rightarrow> \<lparr>root = r, parts = filter (\<lambda>x. x \<noteq> '''' \<and> x \<noteq> ''.'') (split CHR ''/'' rel)\<rparr>)"

definition path_str :: "ppath \<Rightarrow> string" where
  "path_str p =
     (if root p = '''' \<and> parts p = [] then ''.'' else root p @ join ''/'' (parts p))"

definition path_repr :: "ppath \<Rightarrow> string" where
  "path_repr p = ''PosixPath('' @ py_repr (path_str p) @ '')''"

definition parent :: "ppath \<Rightarrow> ppath" where
  "parent p = (if parts p = [] then p else p\<lparr>parts := butlast (parts p)\<rparr>)"

definition name :: "ppath \<Rightarrow> string" where
  "name p = (if parts p = [] then '''' else last (parts p))"

definition suffix :: "ppath \<Rightarrow> string" where
  "suffix p =
     (let i = rfind (name p) CHR ''.''
      in if 0 < i \<and> i < int (length (name p)) - 1 then drop (nat i) (name p) else '''')"

definition with_suffix :: "ppath \<Rightarrow> string \<Rightarrow> py_exception + ppath" where
  "with_suffix p sfx =
     (if CHR ''/'' \<in> set sfx then Inl (ValueError (''Invalid suffix '' @ py_repr sfx))
      else if (sfx \<noteq> '''' \<and> \<not> startswith sfx ''.'') \<or> sfx = ''.''
        then Inl (ValueError (''Invalid suffix '' @ py_repr sfx))
      else if name p = '''' then Inl (ValueError (path_repr p @ '' has an empty name''))
      else
        (let old_suffix = suffix p;
             name' = (if old_suffix = '''' then name p @ sfx
                      else take (length (name p) - length old_suffix) (name p) @ sfx)
         in Inr (p\<lparr>parts := butlast (parts p) @ [name']\<rparr>)))"

definition is_absolute :: "ppath \<Rightarrow> bool" where
  "is_absolute p = (root p \<noteq> '''')"

text \<open>\<open>Path(cwd) / p\<close> for a relative \<open>p\<close>: \<open>Path.absolute\<close> normalises nothing else.\<close>

definition absolute :: "string \<Rightarrow> ppath \<Rightarrow> ppath" where
  "absolute cwd p =
     (if is_absolute p then p
      else \<lparr>root = root (Path cwd), parts = parts (Path cwd) @ parts p\<rparr>)"

subsection \<open>Arrays, tensors and the parameter bundle\<close>

text \<open>
  An array is its shape, the name of its dtype and its buffer, byte by byte. A
  tensor has a scalar type of torch, a device and the gradient flag besides.
\<close>

record ndarray =
  shape :: "nat list"
  dtype :: string
  data :: "8 word list"

datatype scalar_type =
    Float64 | Float32 | Float16 | BFloat16 | Complex64 | Complex128
  | Int64 | Int32 | Int16 | Int8 | UInt8 | Bool

record tensor =
  t_shape :: "nat list"
  t_dtype :: scalar_type
  t_data :: "8 word list"
  requires_grad :: bool
  device :: string

fun scalar_type_name :: "scalar_type \<Rightarrow> string" where
  "scalar_type_name Float64 = ''Double''"
| "scalar_type_name Float32 = ''Float''"
| "scalar_type_name Float16 = ''Half''"
| "scalar_type_name BFloat16 = ''BFloat16''"
| "scalar_type_name Complex64 = ''ComplexFloat''"
| "scalar_type_name Complex128 = ''ComplexDouble''"
| "scalar_type_name Int64 = ''Long''"
| "scalar_type_name Int32 = ''Int''"
| "scalar_type_name Int16 = ''Short''"
| "scalar_type_name Int8 = ''Char''"
| "scalar_type_name UInt8 = ''Byte''"
| "scalar_type_name Bool = ''Bool''"

text \<open>The numpy dtype of a scalar type of torch; \<open>bfloat16\<close> has none.\<close>

fun numpy_dtype :: "scalar_type \<Rightarrow> string option" where
  "numpy_dtype Float64 = Some ''float64''"
| "numpy_dtype Float32 = Some ''float32''"
| "numpy_dtype Float16 = Some ''float16''"
| "numpy_dtype BFloat16 = None"
| "numpy_dtype Complex64 = Some ''complex64''"
| "numpy_dtype Complex128 = Some ''complex128''"
| "numpy_dtype Int64 = Some ''int64''"
| "numpy_dtype Int32 = Some ''int32''"
| "numpy_dtype Int16 = Some ''int16''"
| "numpy_dtype Int8 = Some ''int8''"
| "numpy_dtype UInt8 = Some ''uint8''"
| "numpy_dtype Bool = Some ''bool''"

definition detach :: "tensor \<Rightarrow> tensor" where
  "detach t = t\<lparr>requires_grad := False\<rparr>"

text \<open>
  \<open>Tensor.cpu()\<close> copies the tensor to host memory. A tensor on the \<open>meta\<close> device
  has no data to copy.
\<close>

definition cpu :: "tensor \<Rightarrow> py_exception + tensor" where
  "cpu t =
     (if startswith (device t) ''meta'' then
        Inl (NotImplementedError ''Cannot copy out of meta tensor; no data!'')
      else Inr (t\<lparr>device := ''cpu''\<rparr>))"

text \<open>
  \<open>Tensor.numpy()\<close> of a dense tensor: refused off the host, with the gradient
  flag set, and for a scalar type numpy does not have.
\<close>

definition numpy :: "tensor \<Rightarrow> py_exception + ndarray" where
  "numpy t =
     (if device t \<noteq> ''cpu'' then
        Inl (TypeError (''can't convert '' @ device t @
          '' device type tensor to numpy. Use Tensor.cpu() to copy the tensor to host memory first.''))
      else if requires_grad t then
        Inl (RuntimeError
          ''Can't call numpy() on Tensor that requires grad. Use tensor.detach().numpy() instead.'')
      else (case numpy_dtype (t_dtype t) of
              None \<Rightarrow> Inl (TypeError (''Got unsupported ScalarType '' @ scalar_type_name (t_dtype t)))
            | Some d \<Rightarrow> Inr \<lparr>shape = t_shape t, dtype = d, data = t_data t\<rparr>))"

text \<open>
  A value of the \<open>global\<close> namespace is a tensor, an array, or any other object.
  An object of the last kind is represented by what \<open>np.array\<close> makes of it: an
  array, or the exception raised (a ragged nested list raises \<open>ValueError\<close>).
\<close>

datatype pyvalue =
    Tensor tensor
  | NdArray ndarray
  | Opaque "py_exception + ndarray"

text \<open>\<open>np.array(value)\<close> for a value that is not a tensor: a copy of an array.\<close>

fun np_array :: "pyvalue \<Rightarrow> py_exception + ndarray" where
  "np_array (NdArray a) = Inr a"
| "np_array (Opaque r) = r"
| "np_array (Tensor t) = numpy t"

text \<open>
  Lines 68--71, and again 88--91:
  \<^verbatim>\<open>if isinstance(value, torch.Tensor): value.detach().cpu().numpy()
  else: np.array(value)\<close>
\<close>

definition to_array :: "pyvalue \<Rightarrow> py_exception + ndarray" where
  "to_array v =
     (case v of
        Tensor t \<Rightarrow> (case cpu (detach t) of Inl e \<Rightarrow> Inl e | Inr t' \<Rightarrow> numpy t')
      | _ \<Rightarrow> np_array v)"

text \<open>
  A Python dict is an association list in insertion order (its keys are distinct);
  \<open>d[k] = v\<close> is \<open>AList.update\<close>. The object under \<open>smpl_params["global"]\<close> is a dict
  of values or an object of another type, given by its type name.
\<close>

type_synonym params = "(string \<times> pyvalue) list"

datatype pyobject = Dict params | NotDict string

type_synonym arrays = "(string \<times> ndarray) list"

type_synonym pred = "(string \<times> arrays) list"

fun items :: "pyobject \<Rightarrow> py_exception + params" where
  "items (Dict d) = Inr d"
| "items (NotDict tname) =
     Inl (AttributeError (py_repr tname @ '' object has no attribute '' @ py_repr ''items''))"

subsection \<open>The file system\<close>

text \<open>
  A path string names a file, and two strings may name the same file: a relative
  path and its absolute form, a path through \<open>..\<close>, a link. Which file a string
  names is part of the world (\<open>file_of\<close>); the method makes no link and removes
  nothing, so this does not change during a call. The file system maps a file to
  what it holds: a directory, raw bytes, the named arrays of an archive, an
  archive whose writing was cut short (its complete members and the name of the
  member that was being written), or a sequence of pickled objects, each with its
  protocol. The size that \<open>stat\<close> reports for a node is a parameter (\<open>st_size\<close>),
  since it depends on the serialisation; so is the truth value of a one-element
  array (\<open>elem_truth\<close>), which depends on how its dtype reads the buffer. Besides
  the failures that follow from the state of the file system, any request may be
  refused with an exception given by \<open>faults\<close> (permissions, a full disk); a
  refused request changes nothing.
\<close>

datatype fnode =
    Dir
  | PlainFile "8 word list"
  | NpzFile arrays
  | NpzAborted arrays string
  | PklFile "(pred \<times> nat) list"

datatype io_request =
    MkdirReq string | SavezReq string | OpenReq string | DumpReq string | StatReq string

datatype io_event =
    Mkdir string
  | Savez string arrays
  | SavezAborted string arrays string
  | OpenWrite string
  | Dump string pred nat

record world =
  fs :: "string \<rightharpoonup> fnode"
  file_of :: "string \<Rightarrow> string"
  cwd :: string
  faults :: "io_request \<Rightarrow> py_exception option"
  st_size :: "fnode \<Rightarrow> nat"
  elem_truth :: "ndarray \<Rightarrow> bool"
  events :: "io_event list"

type_synonym 'a io = "world \<Rightarrow> (py_exception + 'a) \<times> world"

definition node_at :: "world \<Rightarrow> string \<Rightarrow> fnode option" where
  "node_at w s = fs w (file_of w s)"

definition same_file :: "world \<Rightarrow> string \<Rightarrow> string \<Rightarrow> bool" where
  "same_file w s t = (file_of w s = file_of w t)"

text \<open>
  The directories a path goes through, outermost first, and the error of walking
  them: \<open>ENOENT\<close> at the first one that is missing, \<open>ENOTDIR\<close> at the first one
  that is not a directory.
\<close>

definition ancestors :: "ppath \<Rightarrow> ppath list" where
  "ancestors p = map (\<lambda>n. p\<lparr>parts := take n (parts p)\<rparr>) [0..<length (parts p)]"

definition path_error :: "world \<Rightarrow> string \<Rightarrow> errno option" where
  "path_error w s =
     (case find (\<lambda>q. node_at w (path_str q) \<noteq> Some Dir) (ancestors (Path s)) of
        None \<Rightarrow> None
      | Some q \<Rightarrow> (if node_at w (path_str q) = None then Some ENOENT else Some ENOTDIR))"

definition os_mkdir :: "string \<Rightarrow> unit io" where
  "os_mkdir s w =
     (case faults w (MkdirReq s) of
        Some e \<Rightarrow> (Inl e, w)
      | None \<Rightarrow>
          (case path_error w s of
             Some n \<Rightarrow> (Inl (OSError n s), w)
           | None \<Rightarrow>
               if node_at w s \<noteq> None then (Inl (OSError EEXIST s), w)
               else (Inr (), w\<lparr>fs := (fs w)(file_of w s \<mapsto> Dir),
                               events := events w @ [Mkdir s]\<rparr>)))"

definition is_dir :: "ppath \<Rightarrow> world \<Rightarrow> bool" where
  "is_dir p w = (path_error w (path_str p) = None \<and> node_at w (path_str p) = Some Dir)"

text \<open>
  \<open>Path.mkdir(parents, exist_ok)\<close>, as pathlib defines it: on \<open>FileNotFoundError\<close>
  (errno \<open>ENOENT\<close>) with \<open>parents\<close>, make the parent and retry without \<open>parents\<close>;
  another \<open>OSError\<close> is swallowed when \<open>exist_ok\<close> holds and the path is a directory.
\<close>

function mkdir :: "ppath \<Rightarrow> bool \<Rightarrow> bool \<Rightarrow> unit io" where
  "mkdir p parents exist_ok w =
     (case os_mkdir (path_str p) w of
        (Inr u, w') \<Rightarrow> (Inr u, w')
      | (Inl e, w') \<Rightarrow>
          (case e of
             OSError n f \<Rightarrow>
               if n = ENOENT then
                 (if \<not> parents \<or> parent p = p then (Inl e, w')
                  else (case mkdir (parent p) True True w' of
                          (Inl e', w'') \<Rightarrow> (Inl e', w'')
                        | (Inr _, w'') \<Rightarrow> mkdir p False exist_ok w''))
               else if \<not> exist_ok \<or> \<not> is_dir p w' then (Inl e, w')
               else (Inr (), w')
           | _ \<Rightarrow> (Inl e, w')))"
  by pat_completeness auto
termination
  by (relation "measure (\<lambda>(p, parents, exist_ok, w). 2 * length (parts p) + (if parents then 1 else 0))")
     (auto simp: parent_def split: if_splits)

declare mkdir.simps [simp del]

text \<open>\<open>open(path, "wb")\<close>: the file is created or truncated.\<close>

definition open_wb :: "string \<Rightarrow> string io" where
  "open_wb s w =
     (case faults w (OpenReq s) of
        Some e \<Rightarrow> (Inl e, w)
      | None \<Rightarrow>
          (case path_error w s of
             Some n \<Rightarrow> (Inl (OSError n s), w)
           | None \<Rightarrow>
               if node_at w s = Some Dir then (Inl (OSError EISDIR s), w)
               else (Inr s, w\<lparr>fs := (fs w)(file_of w s \<mapsto> PlainFile []),
                               events := events w @ [OpenWrite s]\<rparr>)))"

text \<open>
  \<open>pickle.dump(obj, handle, protocol)\<close> on the handle of a file just truncated: the
  file holds the one pickled object. The handle is given by the name the file was
  opened under.
\<close>

definition HIGHEST_PROTOCOL :: nat where
  "HIGHEST_PROTOCOL = 5"

definition pickle_dump :: "pred \<Rightarrow> string \<Rightarrow> nat \<Rightarrow> unit io" where
  "pickle_dump obj handle protocol w =
     (case faults w (DumpReq handle) of
        Some e \<Rightarrow> (Inl e, w)
      | None \<Rightarrow>
          (Inr (), w\<lparr>fs := (fs w)(file_of w handle \<mapsto> PklFile [(obj, protocol)]),
                      events := events w @ [Dump handle obj protocol]\<rparr>))"

text \<open>
  \<open>np.savez(file, *args, allow_pickle=True, **kwds)\<close>, called as
  \<open>np.savez(npz_path, **np_params)\<close>. A keyword named \<open>file\<close> collides with the
  first parameter. A keyword named \<open>allow_pickle\<close> is taken as the parameter of
  that name and is no member of the archive. \<open>.npz\<close> is appended to a file name
  that does not end in it. The archive is opened, and the members are written in
  the order of the keywords, each under its keyword's name. A member of an object
  dtype is pickled, which asks for the truth value of \<open>allow_pickle\<close>: when that
  raises or is false, the writing stops there, and the archive stays as it is,
  with its complete members.
\<close>

definition savez_target :: "ppath \<Rightarrow> string" where
  "savez_target file =
     (if endswith (path_str file) ''.npz'' then path_str file else path_str file @ ''.npz'')"

definition savez_members :: "arrays \<Rightarrow> arrays" where
  "savez_members kwds = filter (\<lambda>(k, a). k \<noteq> ''allow_pickle'') kwds"

definition hasobject :: "ndarray \<Rightarrow> bool" where
  "hasobject a = (dtype a = ''object'')"

text \<open>\<open>bool(a)\<close> for an array.\<close>

definition array_bool :: "world \<Rightarrow> ndarray \<Rightarrow> py_exception + bool" where
  "array_bool w a =
     (if prod_list (shape a) = 0 then
        Inl (ValueError (''The truth value of an empty array is ambiguous. Use '' @ [CHR 0x60] @
          ''array.size > 0'' @ [CHR 0x60] @ '' to check that an array is not empty.''))
      else if 1 < prod_list (shape a) then
        Inl (ValueError (''The truth value of an array with more than one element is ambiguous.''
          @ '' Use a.any() or a.all()''))
      else Inr (elem_truth w a))"

text \<open>The exception of pickling a member, given the keywords of the call.\<close>

definition pickle_refusal :: "world \<Rightarrow> arrays \<Rightarrow> py_exception option" where
  "pickle_refusal w kwds =
     (case map_of kwds ''allow_pickle'' of
        None \<Rightarrow> None
      | Some allow_pickle \<Rightarrow>
          (case array_bool w allow_pickle of
             Inl e \<Rightarrow> Some e
           | Inr True \<Rightarrow> None
           | Inr False \<Rightarrow>
               Some (ValueError ''Object arrays cannot be saved when allow_pickle=False'')))"

definition np_savez :: "ppath \<Rightarrow> arrays \<Rightarrow> unit io" where
  "np_savez file kwds w =
     (if ''file'' \<in> set (map fst kwds) then
        (Inl (TypeError (''savez() got multiple values for argument '' @ py_repr ''file'')), w)
      else
        (let s = savez_target file; members = savez_members kwds in
         case faults w (SavezReq s) of
           Some e \<Rightarrow> (Inl e, w)
         | None \<Rightarrow>
             (case path_error w s of
                Some n \<Rightarrow> (Inl (OSError n s), w)
              | None \<Rightarrow>
                  if node_at w s = Some Dir then (Inl (OSError EISDIR s), w)
                  else
                    (case (find (\<lambda>(k, a). hasobject a) members, pickle_refusal w kwds) of
                       (Some (k, a), Some e) \<Rightarrow>
                         (let written = takeWhile (\<lambda>(k, a). \<not> hasobject a) members in
                          (Inl e, w\<lparr>fs := (fs w)(file_of w s \<mapsto> NpzAborted written k),
                                     events := events w @ [SavezAborted s written k]\<rparr>))
                     | _ \<Rightarrow>
                         (Inr (), w\<lparr>fs := (fs w)(file_of w s \<mapsto> NpzFile members),
                                     events := events w @ [Savez s members]\<rparr>)))))"

text \<open>\<open>path.stat().st_size\<close>.\<close>

definition stat_size :: "ppath \<Rightarrow> nat io" where
  "stat_size p w =
     (case faults w (StatReq (path_str p)) of
        Some e \<Rightarrow> (Inl e, w)
      | None \<Rightarrow>
          (case path_error w (path_str p) of
             Some n \<Rightarrow> (Inl (OSError n (path_str p)), w)
           | None \<Rightarrow>
               (case node_at w (path_str p) of
                  None \<Rightarrow> (Inl (OSError ENOENT (path_str p)), w)
                | Some n \<Rightarrow> (Inr (st_size w n), w))))"

subsection \<open>The method \<open>save_smpl\<close>\<close>

text \<open>
  The two messages of the source are Japanese text; they are given as the bytes of
  their UTF-8 encoding. Line 50: \<open>"smpl_params [ni] 'global' [ga fukumarete imasen.]"\<close>;
  line 86: \<open>f"'global' [ni] '{key}' [ga fukumarete imasen.]"\<close>.
\<close>

definition ga_fukumarete_imasen :: string where
  "ga_fukumarete_imasen =
     [CHR 0xE3, CHR 0x81, CHR 0x8C, CHR 0xE5, CHR 0x90, CHR 0xAB, CHR 0xE3, CHR 0x81, CHR 0xBE,
      CHR 0xE3, CHR 0x82, CHR 0x8C, CHR 0xE3, CHR 0x81, CHR 0xA6, CHR 0xE3, CHR 0x81, CHR 0x84,
      CHR 0xE3, CHR 0x81, CHR 0xBE, CHR 0xE3, CHR 0x81, CHR 0x9B, CHR 0xE3, CHR 0x82, CHR 0x93,
      CHR 0xE3, CHR 0x80, CHR 0x82]"

definition ni :: string where
  "ni = [CHR 0xE3, CHR 0x81, CHR 0xAB]"

definition quoted :: "string \<Rightarrow> string" where
  "quoted s = [CHR 0x27] @ s @ [CHR 0x27]"

definition msg_no_global :: string where
  "msg_no_global = ''smpl_params '' @ ni @ '' '' @ quoted ''global'' @ '' '' @ ga_fukumarete_imasen"

definition msg_missing_key :: "string \<Rightarrow> string" where
  "msg_missing_key key = quoted ''global'' @ '' '' @ ni @ '' '' @ quoted key @ '' '' @ ga_fukumarete_imasen"

definition required_keys :: "string list" where
  "required_keys = [''body_pose'', ''global_orient'', ''transl'', ''betas'']"

text \<open>Sequencing of steps that may raise.\<close>

definition io_bind :: "'a io \<Rightarrow> ('a \<Rightarrow> 'b io) \<Rightarrow> 'b io" where
  "io_bind m f w = (case m w of (Inl e, w') \<Rightarrow> (Inl e, w') | (Inr x, w') \<Rightarrow> f x w')"

definition lift :: "py_exception + 'a \<Rightarrow> 'a io" where
  "lift r w = (r, w)"

text \<open>
  Lines 66--71, the conversion loop over \<open>global_params.items()\<close>, with the
  dict \<open>np_params\<close> built so far.
\<close>

fun convert_params :: "params \<Rightarrow> arrays \<Rightarrow> py_exception + arrays" where
  "convert_params [] np_params = Inr np_params"
| "convert_params ((key, value) # rest) np_params =
     (case to_array value of
        Inl e \<Rightarrow> Inl e
      | Inr a \<Rightarrow> convert_params rest (AList.update key a np_params))"

text \<open>
  Lines 82--91, one iteration of the loop over the required keys: the array of
  \<open>key\<close>, from \<open>np_params\<close>, else from \<open>global_params\<close>, else \<open>KeyError\<close>.
\<close>

definition resolve :: "arrays \<Rightarrow> params \<Rightarrow> string \<Rightarrow> py_exception + ndarray" where
  "resolve np_params global_params key =
     (case map_of np_params key of
        Some arr \<Rightarrow> Inr arr
      | None \<Rightarrow>
          (case map_of global_params key of
             None \<Rightarrow> Inl (KeyError (msg_missing_key key))
           | Some val \<Rightarrow> to_array val))"

text \<open>\<open>pred_np[ns][key] = arr\<close>.\<close>

definition setitem2 :: "pred \<Rightarrow> string \<Rightarrow> string \<Rightarrow> ndarray \<Rightarrow> py_exception + pred" where
  "setitem2 pred_np ns key arr =
     (case map_of pred_np ns of
        None \<Rightarrow> Inl (KeyError ns)
      | Some d \<Rightarrow> Inr (AList.update ns (AList.update key arr d) pred_np))"

text \<open>Lines 81--94, the loop over the required keys.\<close>

fun build_pred :: "arrays \<Rightarrow> params \<Rightarrow> string list \<Rightarrow> pred \<Rightarrow> py_exception + pred" where
  "build_pred np_params global_params [] pred_np = Inr pred_np"
| "build_pred np_params global_params (key # keys) pred_np =
     (case resolve np_params global_params key of
        Inl e \<Rightarrow> Inl e
      | Inr arr \<Rightarrow>
          (case setitem2 pred_np ''smpl_params_global'' key arr of
             Inl e \<Rightarrow> Inl e
           | Inr pred1 \<Rightarrow>
               (case setitem2 pred1 ''smpl_params_incam'' key arr of
                  Inl e \<Rightarrow> Inl e
                | Inr pred2 \<Rightarrow> build_pred np_params global_params keys pred2)))"

text \<open>Line 99: \<open>pred_np["smpl_params_global"]["body_pose"].shape[0]\<close>.\<close>

definition num_frames_of :: "pred \<Rightarrow> py_exception + nat" where
  "num_frames_of pred_np =
     (case map_of pred_np ''smpl_params_global'' of
        None \<Rightarrow> Inl (KeyError ''smpl_params_global'')
      | Some d \<Rightarrow>
          (case map_of d ''body_pose'' of
             None \<Rightarrow> Inl (KeyError ''body_pose'')
           | Some a \<Rightarrow>
               (case shape a of
                  [] \<Rightarrow> Inl (IndexError ''tuple index out of range'')
                | n # _ \<Rightarrow> Inr n)))"

text \<open>
  \<open>f"{st_size / 1024:.1f}"\<close>: the quotient is exact in binary floating point (for a
  size below \<open>2^53\<close>), and the format rounds its exact value to one decimal place,
  a tie to the even digit.
\<close>

definition fmt_kb :: "nat \<Rightarrow> string" where
  "fmt_kb st_bytes =
     (let q = (10 * st_bytes) div 1024;
          r = (10 * st_bytes) mod 1024;
          t = (if 512 < r \<or> (r = 512 \<and> odd q) then q + 1 else q)
      in str_nat (t div 10) @ ''.'' @ str_nat (t mod 10))"

text \<open>Lines 103--108.\<close>

definition info_text :: "ppath \<Rightarrow> nat \<Rightarrow> ppath \<Rightarrow> nat \<Rightarrow> nat \<Rightarrow> string" where
  "info_text npz_path size_npz pkl_path size_pkl num_frames =
     ''SaveSMPL Complete'' @ [CHR 0x0A] @
     ''NPZ: '' @ path_str npz_path @ '' ('' @ fmt_kb size_npz @ '' KB)'' @ [CHR 0x0A] @
     ''PKL: '' @ path_str pkl_path @ '' ('' @ fmt_kb size_pkl @ '' KB)'' @ [CHR 0x0A] @
     ''Frames: '' @ str_nat num_frames @ [CHR 0x0A]"

text \<open>
  Lines 61--64: \<^verbatim>\<open>if path.suffix == "": path = path.with_suffix(sfx)\<close>.
\<close>

definition default_suffix :: "ppath \<Rightarrow> string \<Rightarrow> py_exception + ppath" where
  "default_suffix p sfx = (if suffix p = '''' then with_suffix p sfx else Inr p)"

text \<open>
  Lines 55--64: the two paths are parsed, their parent directories are made, and
  the default suffixes are put in.
\<close>

definition prepare_paths :: "string \<Rightarrow> string \<Rightarrow> (ppath \<times> ppath) io" where
  "prepare_paths npz_output_path pkl_output_path =
     io_bind (mkdir (parent (Path npz_output_path)) True True) (\<lambda>_.
     io_bind (mkdir (parent (Path pkl_output_path)) True True) (\<lambda>_.
     io_bind (lift (default_suffix (Path npz_output_path) ''.npz'')) (\<lambda>npz_path.
     io_bind (lift (default_suffix (Path pkl_output_path) ''.pkl'')) (\<lambda>pkl_path.
     lift (Inr (npz_path, pkl_path))))))"

text \<open>Lines 75--78, the record before the loop.\<close>

definition empty_pred :: pred where
  "empty_pred = [(''smpl_params_global'', []), (''smpl_params_incam'', [])]"

text \<open>
  Lines 46--113, the body of the \<open>try\<close>. The calls to the logger are left out.
\<close>

definition save_smpl_body ::
  "(string \<times> pyobject) list \<Rightarrow> string \<Rightarrow> string \<Rightarrow> (string \<times> string) io" where
  "save_smpl_body smpl_params npz_output_path pkl_output_path =
     (case map_of smpl_params ''global'' of
        None \<Rightarrow> lift (Inl (ValueError msg_no_global))
      | Some global_params \<Rightarrow>
          io_bind (prepare_paths npz_output_path pkl_output_path) (\<lambda>(npz_path, pkl_path).
          io_bind (lift (items global_params)) (\<lambda>global_items.
          io_bind (lift (convert_params global_items [])) (\<lambda>np_params.
          io_bind (np_savez npz_path np_params) (\<lambda>_.
          io_bind (lift (build_pred np_params global_items required_keys empty_pred)) (\<lambda>pred_np.
          io_bind (open_wb (path_str pkl_path)) (\<lambda>handle.
          io_bind (pickle_dump pred_np handle HIGHEST_PROTOCOL) (\<lambda>_.
          io_bind (lift (num_frames_of pred_np)) (\<lambda>num_frames.
          io_bind (stat_size npz_path) (\<lambda>size_npz.
          io_bind (stat_size pkl_path) (\<lambda>size_pkl.
          (\<lambda>w. (Inr (path_str (absolute (cwd w) npz_path),
                      info_text npz_path size_npz pkl_path size_pkl num_frames), w)))))))))))))"

text \<open>
  Lines 45 and 115--120: the handler turns every exception into the returned pair.
\<close>

definition save_smpl ::
  "(string \<times> pyobject) list \<Rightarrow> string \<Rightarrow> string \<Rightarrow> world \<Rightarrow> (string \<times> string) \<times> world" where
  "save_smpl smpl_params npz_output_path pkl_output_path w =
     (case save_smpl_body smpl_params npz_output_path pkl_output_path w of
        (Inr result, w') \<Rightarrow> (result, w')
      | (Inl e, w') \<Rightarrow> (('''', ''SaveSMPL failed: '' @ py_str e), w'))"

subsection \<open>Observing a call\<close>

text \<open>
  What a call did is read off the world it returns: the events it appended, the
  archives and the pickles among them, and the files as a reader finds them
  afterwards (\<open>np.load\<close>, \<open>pickle.load\<close> of a file that holds one object). These
  are not part of the program; the properties below are stated with them.
\<close>

definition new_events :: "world \<Rightarrow> world \<Rightarrow> io_event list" where
  "new_events w w' = drop (length (events w)) (events w')"

fun archives :: "io_event list \<Rightarrow> (string \<times> arrays) list" where
  "archives [] = []"
| "archives (Savez s kwds # evs) = (s, kwds) # archives evs"
| "archives (_ # evs) = archives evs"

fun dumps :: "io_event list \<Rightarrow> (string \<times> pred \<times> nat) list" where
  "dumps [] = []"
| "dumps (Dump s obj protocol # evs) = (s, obj, protocol) # dumps evs"
| "dumps (_ # evs) = dumps evs"

fun is_pkl_write :: "io_event \<Rightarrow> bool" where
  "is_pkl_write (OpenWrite s) = True"
| "is_pkl_write (Dump s obj protocol) = True"
| "is_pkl_write _ = False"


fun is_mkdir :: "io_event \<Rightarrow> bool" where
  "is_mkdir (Mkdir s) = True"
| "is_mkdir _ = False"

text \<open>An event that finishes no output file: a directory made, an archive cut short.\<close>

fun no_output :: "io_event \<Rightarrow> bool" where
  "no_output (Mkdir s) = True"
| "no_output (SavezAborted s kwds k) = True"
| "no_output _ = False"

definition np_load :: "string \<Rightarrow> world \<Rightarrow> arrays option" where
  "np_load s w = (case node_at w s of Some (NpzFile kwds) \<Rightarrow> Some kwds | _ \<Rightarrow> None)"

definition pickle_load :: "string \<Rightarrow> world \<Rightarrow> pred option" where
  "pickle_load s w =
     (case node_at w s of Some (PklFile [(obj, protocol)]) \<Rightarrow> Some obj | _ \<Rightarrow> None)"

subsection \<open>Example inputs\<close>

text \<open>
  A world without links, in which a path names the file that its absolute form
  names once every \<open>..\<close> has taken its directory away; the working directory is
  \<open>/home/user\<close> and is empty, and no fault is injected. An array of zeros of a
  given shape (\<open>float32\<close>, four bytes an element), and the bundle of the round-trip
  property: five frames.
\<close>

fun collapse :: "string list \<Rightarrow> string list \<Rightarrow> string list" where
  "collapse seen [] = rev seen"
| "collapse seen (x # xs) = (if x = ''..'' then collapse (tl seen) xs else collapse (x # seen) xs)"

definition example_file_of :: "string \<Rightarrow> string" where
  "example_file_of s =
     (let p = absolute ''/home/user'' (Path s) in path_str (p\<lparr>parts := collapse [] (parts p)\<rparr>))"

definition example_size :: "fnode \<Rightarrow> nat" where
  "example_size n =
     (case n of
        Dir \<Rightarrow> 4096
      | PlainFile bs \<Rightarrow> length bs
      | NpzFile kwds \<Rightarrow> 8192
      | NpzAborted kwds k \<Rightarrow> 4096
      | PklFile objs \<Rightarrow> 15600)"

definition example_world :: world where
  "example_world =
     \<lparr>fs = [''/'' \<mapsto> Dir, ''/home'' \<mapsto> Dir, ''/home/user'' \<mapsto> Dir],
      file_of = example_file_of, cwd = ''/home/user'', faults = (\<lambda>_. None),
      st_size = example_size, elem_truth = (\<lambda>a. list_ex (\<lambda>b. b \<noteq> 0) (data a)),
      events = []\<rparr>"

definition zeros :: "nat list \<Rightarrow> ndarray" where
  "zeros sh = \<lparr>shape = sh, dtype = ''float32'', data = replicate (4 * prod_list sh) 0\<rparr>"

definition example_params :: params where
  "example_params =
     [(''body_pose'', NdArray (zeros [5, 24, 3])),
      (''global_orient'', NdArray (zeros [5, 3])),
      (''transl'', NdArray (zeros [5, 3])),
      (''betas'', NdArray (zeros [10]))]"

definition example_arrays :: arrays where
  "example_arrays =
     [(''body_pose'', zeros [5, 24, 3]),
      (''global_orient'', zeros [5, 3]),
      (''transl'', zeros [5, 3]),
      (''betas'', zeros [10])]"

text \<open>The same bundle without \<open>betas\<close>.\<close>

definition params_without_betas :: params where
  "params_without_betas =
     [(''body_pose'', NdArray (zeros [5, 24, 3])),
      (''global_orient'', NdArray (zeros [5, 3])),
      (''transl'', NdArray (zeros [5, 3]))]"

definition arrays_without_betas :: arrays where
  "arrays_without_betas =
     [(''body_pose'', zeros [5, 24, 3]),
      (''global_orient'', zeros [5, 3]),
      (''transl'', zeros [5, 3])]"

text \<open>A bundle that has neither \<open>body_pose\<close> nor \<open>betas\<close>.\<close>

definition params_orient_transl :: params where
  "params_orient_transl =
     [(''global_orient'', NdArray (zeros [5, 3])),
      (''transl'', NdArray (zeros [5, 3]))]"

definition arrays_orient_transl :: arrays where
  "arrays_orient_transl =
     [(''global_orient'', zeros [5, 3]),
      (''transl'', zeros [5, 3])]"

text \<open>The example world after the directories \<open>output\<close> and \<open>output_pkl\<close> were made.\<close>

definition world_after_dirs :: world where
  "world_after_dirs =
     example_world
       \<lparr>fs := [''/'' \<mapsto> Dir, ''/home'' \<mapsto> Dir, ''/home/user'' \<mapsto> Dir,
               ''/home/user/output'' \<mapsto> Dir, ''/home/user/output_pkl'' \<mapsto> Dir],
        events := [Mkdir ''output'', Mkdir ''output_pkl'']\<rparr>"

text \<open>The record of the example bundle, and the summary of its export.\<close>

definition example_pred :: pred where
  "example_pred =
     [(''smpl_params_global'', example_arrays), (''smpl_params_incam'', example_arrays)]"

definition example_info :: string where
  "example_info =
     ''SaveSMPL Complete'' @ [CHR 0x0A] @
     ''NPZ: output/motion.npz (8.0 KB)'' @ [CHR 0x0A] @
     ''PKL: output_pkl/motion.pkl (15.2 KB)'' @ [CHR 0x0A] @
     ''Frames: 5'' @ [CHR 0x0A]"

text \<open>
  The example world after an export to \<open>output/motion.npz\<close> and
  \<open>output_pkl/motion.pkl\<close> that wrote the given arrays and record.
\<close>

definition world_after :: "arrays \<Rightarrow> pred \<Rightarrow> world" where
  "world_after kwds obj =
     example_world
       \<lparr>fs := [''/'' \<mapsto> Dir, ''/home'' \<mapsto> Dir, ''/home/user'' \<mapsto> Dir,
               ''/home/user/output'' \<mapsto> Dir, ''/home/user/output_pkl'' \<mapsto> Dir,
               ''/home/user/output/motion.npz'' \<mapsto> NpzFile kwds,
               ''/home/user/output_pkl/motion.pkl'' \<mapsto> PklFile [(obj, HIGHEST_PROTOCOL)]],
        events := [Mkdir ''output'', Mkdir ''output_pkl'',
                   Savez ''output/motion.npz'' kwds,
                   OpenWrite ''output_pkl/motion.pkl'',
                   Dump ''output_pkl/motion.pkl'' obj HIGHEST_PROTOCOL]\<rparr>"

text \<open>
  The example bundle with a fifth entry: a tensor on an accelerator, with
  gradient tracking, of another dtype.
\<close>

definition example_tensor :: tensor where
  "example_tensor =
     \<lparr>t_shape = [3, 3], t_dtype = Float64, t_data = replicate 72 0,
      requires_grad = True, device = ''cuda:0''\<rparr>"

definition params_with_extra :: params where
  "params_with_extra = example_params @ [(''cam_K'', Tensor example_tensor)]"

definition arrays_with_extra :: arrays where
  "arrays_with_extra =
     example_arrays @ [(''cam_K'', \<lparr>shape = [3, 3], dtype = ''float64'', data = replicate 72 0\<rparr>)]"



text \<open>
  The example world after a call that made the two directories and wrote the
  archive under the given name, and nothing else; and after a call that made the
  directory \<open>output_pkl\<close> only.
\<close>

definition world_after_archive :: "string \<Rightarrow> arrays \<Rightarrow> world" where
  "world_after_archive npz_file kwds =
     example_world
       \<lparr>fs := [''/'' \<mapsto> Dir, ''/home'' \<mapsto> Dir, ''/home/user'' \<mapsto> Dir,
               ''/home/user/output'' \<mapsto> Dir, ''/home/user/output_pkl'' \<mapsto> Dir,
               example_file_of npz_file \<mapsto> NpzFile kwds],
        events := [Mkdir ''output'', Mkdir ''output_pkl'', Savez npz_file kwds]\<rparr>"


text \<open>
  The example world after an export to \<open>output/motion.dat\<close> and
  \<open>output_pkl/motion.pkl\<close>: the arrays are in \<open>output/motion.dat.npz\<close>.
\<close>

definition world_after_dat :: "arrays \<Rightarrow> pred \<Rightarrow> world" where
  "world_after_dat kwds obj =
     example_world
       \<lparr>fs := [''/'' \<mapsto> Dir, ''/home'' \<mapsto> Dir, ''/home/user'' \<mapsto> Dir,
               ''/home/user/output'' \<mapsto> Dir, ''/home/user/output_pkl'' \<mapsto> Dir,
               ''/home/user/output/motion.dat.npz'' \<mapsto> NpzFile kwds,
               ''/home/user/output_pkl/motion.pkl'' \<mapsto> PklFile [(obj, HIGHEST_PROTOCOL)]],
        events := [Mkdir ''output'', Mkdir ''output_pkl'',
                   Savez ''output/motion.dat.npz'' kwds,
                   OpenWrite ''output_pkl/motion.pkl'',
                   Dump ''output_pkl/motion.pkl'' obj HIGHEST_PROTOCOL]\<rparr>"


text \<open>The message of \<open>stat\<close> on a file that does not exist.\<close>

definition msg_no_file :: "string \<Rightarrow> string" where
  "msg_no_file s = ''SaveSMPL failed: [Errno 2] No such file or directory: '' @ quoted s"

text \<open>
  The example world after an export to \<open>output/motion.npz\<close> and
  \<open>output_pkl/motion.pickle\<close>, and the summary of that export.
\<close>

definition world_after_pickle :: "arrays \<Rightarrow> pred \<Rightarrow> world" where
  "world_after_pickle kwds obj =
     example_world
       \<lparr>fs := [''/'' \<mapsto> Dir, ''/home'' \<mapsto> Dir, ''/home/user'' \<mapsto> Dir,
               ''/home/user/output'' \<mapsto> Dir, ''/home/user/output_pkl'' \<mapsto> Dir,
               ''/home/user/output/motion.npz'' \<mapsto> NpzFile kwds,
               ''/home/user/output_pkl/motion.pickle'' \<mapsto> PklFile [(obj, HIGHEST_PROTOCOL)]],
        events := [Mkdir ''output'', Mkdir ''output_pkl'',
                   Savez ''output/motion.npz'' kwds,
                   OpenWrite ''output_pkl/motion.pickle'',
                   Dump ''output_pkl/motion.pickle'' obj HIGHEST_PROTOCOL]\<rparr>"




section \<open>Lemmas\<close>

subsection \<open>Sequencing\<close>

lemma io_bind_Inr_iff:
  "io_bind m f w = (Inr y, w') \<longleftrightarrow> (\<exists>x w1. m w = (Inr x, w1) \<and> f x w1 = (Inr y, w'))"
  by (auto simp: io_bind_def split: prod.splits sum.splits)

lemma io_bind_Inl_iff:
  "io_bind m f w = (Inl e, w') \<longleftrightarrow>
     m w = (Inl e, w') \<or> (\<exists>x w1. m w = (Inr x, w1) \<and> f x w1 = (Inl e, w'))"
  by (auto simp: io_bind_def split: prod.splits sum.splits)

lemma io_bind_ok: "m w = (Inr x, w1) \<Longrightarrow> io_bind m f w = f x w1"
  by (simp add: io_bind_def)

lemma io_bind_raise: "m w = (Inl e, w1) \<Longrightarrow> io_bind m f w = (Inl e, w1)"
  by (simp add: io_bind_def)

lemma lift_iff: "lift r w = (x, w') \<longleftrightarrow> r = x \<and> w = w'"
  by (auto simp: lift_def)

subsection \<open>Effects of the primitives\<close>

lemma os_mkdir_cases:
  assumes "os_mkdir s w = (r, w')"
  shows "(\<exists>e. r = Inl e) \<and> w' = w \<or>
         r = Inr () \<and> w' = w\<lparr>fs := (fs w)(file_of w s \<mapsto> Dir), events := events w @ [Mkdir s]\<rparr>"
  using assms by (auto simp: os_mkdir_def split: option.splits if_splits)

lemma os_mkdir_events:
  assumes "os_mkdir s w = (r, w')"
  shows "\<exists>evs. events w' = events w @ evs \<and> list_all is_mkdir evs \<and> cwd w' = cwd w"
  using os_mkdir_cases [OF assms] by auto

lemma mkdir_events:
  "mkdir p parents exist_ok w = (r, w') \<Longrightarrow>
     \<exists>evs. events w' = events w @ evs \<and> list_all is_mkdir evs \<and> cwd w' = cwd w"
proof (induction p parents exist_ok w arbitrary: r w' rule: mkdir.induct)
  case (1 p parents exist_ok w)
  obtain r0 w0 where os: "os_mkdir (path_str p) w = (r0, w0)"
    by (cases "os_mkdir (path_str p) w")
  from os_mkdir_events [OF os] obtain evs0 where
    e0: "events w0 = events w @ evs0" "list_all is_mkdir evs0" "cwd w0 = cwd w" by blast
  show ?case
  proof (cases "\<exists>f. r0 = Inl (OSError ENOENT f) \<and> parents \<and> parent p \<noteq> p")
    case False
    with "1.prems" os have "w' = w0"
      by (subst (asm) mkdir.simps) (auto split: sum.splits py_exception.splits if_splits)
    with e0 show ?thesis by blast
  next
    case True
    then obtain f where r0: "r0 = Inl (OSError ENOENT f)" and par: "parents" "parent p \<noteq> p" by blast
    obtain r1 w1 where m1: "mkdir (parent p) True True w0 = (r1, w1)"
      by (cases "mkdir (parent p) True True w0")
    have "\<exists>evs. events w1 = events w0 @ evs \<and> list_all is_mkdir evs \<and> cwd w1 = cwd w0"
      using "1.IH"(1) [OF os [symmetric] r0 refl refl _ m1] par by blast
    then obtain evs1 where
      e1: "events w1 = events w0 @ evs1" "list_all is_mkdir evs1" "cwd w1 = cwd w0" by blast
    show ?thesis
    proof (cases r1)
      case (Inl e')
      with "1.prems" os r0 par m1 have "w' = w1"
        by (subst (asm) mkdir.simps) auto
      with e0 e1 show ?thesis by auto
    next
      case (Inr u)
      with "1.prems" os r0 par m1 have m2: "mkdir p False exist_ok w1 = (r, w')"
        by (subst (asm) mkdir.simps) auto
      have "\<exists>evs. events w' = events w1 @ evs \<and> list_all is_mkdir evs \<and> cwd w' = cwd w1"
        using "1.IH"(2) [OF os [symmetric] r0 refl refl _ m1 [symmetric] Inr m2] par by blast
      with e0 e1 show ?thesis by auto
    qed
  qed
qed


lemma np_savez_Inr:
  assumes "np_savez file kwds w = (Inr u, w')"
  shows "w' = w\<lparr>fs := (fs w)(file_of w (savez_target file) \<mapsto> NpzFile (savez_members kwds)),
                 events := events w @ [Savez (savez_target file) (savez_members kwds)]\<rparr>"
  using assms
  by (auto simp: np_savez_def Let_def split: option.splits if_splits prod.splits)

lemma np_savez_Inl:
  assumes "np_savez file kwds w = (Inl e, w')"
  shows "w' = w \<or>
    (\<exists>written k. w' = w\<lparr>fs := (fs w)(file_of w (savez_target file) \<mapsto> NpzAborted written k),
                          events := events w @ [SavezAborted (savez_target file) written k]\<rparr>)"
  using assms
  by (auto simp: np_savez_def Let_def split: option.splits if_splits prod.splits)

lemma np_savez_Inl_events:
  assumes "np_savez file kwds w = (Inl e, w')"
  shows "\<exists>evs. events w' = events w @ evs \<and> list_all no_output evs"
proof -
  from np_savez_Inl [OF assms] show ?thesis
  proof
    assume "w' = w"
    then have "events w' = events w @ []" by simp
    then show ?thesis by force
  next
    assume "\<exists>written k. w' = w\<lparr>fs := (fs w)(file_of w (savez_target file) \<mapsto> NpzAborted written k),
                          events := events w @ [SavezAborted (savez_target file) written k]\<rparr>"
    then obtain written k where
      "events w' = events w @ [SavezAborted (savez_target file) written k]"
      by auto
    then show ?thesis by force
  qed
qed

lemma open_wb_Inr:
  assumes "open_wb s w = (Inr h, w')"
  shows "h = s \<and> w' = w\<lparr>fs := (fs w)(file_of w s \<mapsto> PlainFile []),
                          events := events w @ [OpenWrite s]\<rparr>"
  using assms by (auto simp: open_wb_def split: option.splits if_splits)

lemma open_wb_Inl: "open_wb s w = (Inl e, w') \<Longrightarrow> w' = w"
  by (auto simp: open_wb_def split: option.splits if_splits)

lemma pickle_dump_Inr:
  assumes "pickle_dump obj h protocol w = (Inr u, w')"
  shows "w' = w\<lparr>fs := (fs w)(file_of w h \<mapsto> PklFile [(obj, protocol)]),
                 events := events w @ [Dump h obj protocol]\<rparr>"
  using assms by (auto simp: pickle_dump_def split: option.splits)

lemma pickle_dump_Inl: "pickle_dump obj h protocol w = (Inl e, w') \<Longrightarrow> w' = w"
  by (auto simp: pickle_dump_def split: option.splits)

lemma stat_size_world: "stat_size p w = (r, w') \<Longrightarrow> w' = w"
  by (auto simp: stat_size_def split: option.splits)

lemma mkdir_no_output: "list_all is_mkdir evs \<Longrightarrow> list_all no_output evs"
proof (induction evs)
  case Nil
  then show ?case by simp
next
  case (Cons ev evs)
  then show ?case by (cases ev) auto
qed

lemma prepare_paths_events:
  assumes "prepare_paths p q w = (r, w')"
  shows "\<exists>evs. events w' = events w @ evs \<and> list_all is_mkdir evs \<and> cwd w' = cwd w"
proof -
  obtain r1 w1 where m1: "mkdir (parent (Path p)) True True w = (r1, w1)"
    by (cases "mkdir (parent (Path p)) True True w")
  obtain r2 w2 where m2: "mkdir (parent (Path q)) True True w1 = (r2, w2)"
    by (cases "mkdir (parent (Path q)) True True w1")
  from mkdir_events [OF m1] obtain evs1 where
    e1: "events w1 = events w @ evs1" "list_all is_mkdir evs1" "cwd w1 = cwd w" by blast
  from mkdir_events [OF m2] obtain evs2 where
    e2: "events w2 = events w1 @ evs2" "list_all is_mkdir evs2" "cwd w2 = cwd w1" by blast
  have "w' = w1 \<or> w' = w2"
    using assms m1 m2
    by (auto simp: prepare_paths_def io_bind_def lift_def split: sum.splits)
  with e1 e2 show ?thesis by auto
qed

lemma prepare_paths_Inr:
  assumes "prepare_paths p q w = (Inr (npz_path, pkl_path), w')"
  shows "default_suffix (Path p) ''.npz'' = Inr npz_path \<and>
         default_suffix (Path q) ''.pkl'' = Inr pkl_path"
  using assms
  by (auto simp: prepare_paths_def io_bind_def lift_def split: sum.splits prod.splits)


subsection \<open>The conversion loop\<close>

lemma convert_params_keys:
  "convert_params gp acc = Inr np \<Longrightarrow> fst ` set np = fst ` set acc \<union> fst ` set gp"
proof (induction gp arbitrary: acc)
  case Nil
  then show ?case by simp
next
  case (Cons kv rest)
  obtain k v where kv: "kv = (k, v)" by (cases kv)
  from Cons.prems kv obtain a where
    a: "to_array v = Inr a" and rec: "convert_params rest (AList.update k a acc) = Inr np"
    by (auto split: sum.splits)
  from Cons.IH [OF rec] show ?case
    by (simp add: kv dom_update)
qed





subsection \<open>The loop over the required keys\<close>

lemma resolve_same_keys:
  assumes "fst ` set np = fst ` set gp"
  shows "resolve np gp key =
     (case map_of np key of Some arr \<Rightarrow> Inr arr | None \<Rightarrow> Inl (KeyError (msg_missing_key key)))"
proof (cases "map_of np key")
  case None
  then have "key \<notin> fst ` set gp"
    using assms by (simp add: map_of_eq_None_iff)
  then have "map_of gp key = None"
    by (simp add: map_of_eq_None_iff)
  with None show ?thesis by (simp add: resolve_def)
next
  case (Some a)
  then show ?thesis by (simp add: resolve_def)
qed

lemma resolve_Inr_key:
  "resolve np gp key = Inr a \<Longrightarrow> key \<in> fst ` set np \<union> fst ` set gp"
  by (force simp: resolve_def split: option.splits dest: map_of_SomeD)

lemma setitem2_global:
  "setitem2 [(''smpl_params_global'', g), (''smpl_params_incam'', i)] ''smpl_params_global'' key arr
     = Inr [(''smpl_params_global'', AList.update key arr g), (''smpl_params_incam'', i)]"
  by (simp add: setitem2_def)

lemma setitem2_incam:
  "setitem2 [(''smpl_params_global'', g), (''smpl_params_incam'', i)] ''smpl_params_incam'' key arr
     = Inr [(''smpl_params_global'', g), (''smpl_params_incam'', AList.update key arr i)]"
  by (simp add: setitem2_def)

lemma build_pred_step:
  "build_pred np gp (key # keys) [(''smpl_params_global'', g), (''smpl_params_incam'', g)] =
     (case resolve np gp key of
        Inl e \<Rightarrow> Inl e
      | Inr arr \<Rightarrow>
          build_pred np gp keys
            [(''smpl_params_global'', AList.update key arr g),
             (''smpl_params_incam'', AList.update key arr g)])"
  by (simp add: setitem2_global setitem2_incam split: sum.splits)

lemma build_pred_Inr:
  assumes "build_pred np gp keys [(''smpl_params_global'', g), (''smpl_params_incam'', g)] = Inr pred_np"
  shows "\<exists>g'. pred_np = [(''smpl_params_global'', g'), (''smpl_params_incam'', g')]
    \<and> (\<forall>k\<in>set keys. \<exists>a. resolve np gp k = Inr a \<and> map_of g' k = Some a)
    \<and> (\<forall>k. k \<notin> set keys \<longrightarrow> map_of g' k = map_of g k)
    \<and> (distinct keys \<and> set keys \<inter> fst ` set g = {} \<longrightarrow> map fst g' = map fst g @ keys)"
  using assms
proof (induction keys arbitrary: g)
  case Nil
  then show ?case by auto
next
  case (Cons key keys)
  from Cons.prems obtain arr where
    r: "resolve np gp key = Inr arr"
    and rec: "build_pred np gp keys
          [(''smpl_params_global'', AList.update key arr g),
           (''smpl_params_incam'', AList.update key arr g)] = Inr pred_np"
    unfolding build_pred_step by (auto split: sum.splits)
  from Cons.IH [OF rec] obtain g' where
    p: "pred_np = [(''smpl_params_global'', g'), (''smpl_params_incam'', g')]"
    and inl: "\<forall>k\<in>set keys. \<exists>a. resolve np gp k = Inr a \<and> map_of g' k = Some a"
    and out: "\<forall>k. k \<notin> set keys \<longrightarrow> map_of g' k = map_of (AList.update key arr g) k"
    and ord: "distinct keys \<and> set keys \<inter> fst ` set (AList.update key arr g) = {}
                \<longrightarrow> map fst g' = map fst (AList.update key arr g) @ keys"
    by blast
  have at_key: "\<exists>a. resolve np gp key = Inr a \<and> map_of g' key = Some a"
  proof (cases "key \<in> set keys")
    case True
    with inl show ?thesis by blast
  next
    case False
    with out r show ?thesis by (simp add: update_conv')
  qed
  have out': "map_of g' k = map_of g k" if "k \<notin> set (key # keys)" for k
    using out that by (simp add: update_conv')
  have ord': "map fst g' = map fst g @ key # keys"
    if "distinct (key # keys)" "set (key # keys) \<inter> fst ` set g = {}"
  proof -
    have "set keys \<inter> fst ` set (AList.update key arr g) = {}"
      using that by (auto simp: dom_update)
    with ord that have "map fst g' = map fst (AList.update key arr g) @ keys" by simp
    moreover have "key \<notin> set (map fst g)" using that by auto
    ultimately show ?thesis by (simp add: update_keys)
  qed
  show ?case
    using p at_key inl out' ord' by auto
qed

lemma build_pred_Inl:
  assumes "build_pred np gp keys [(''smpl_params_global'', g), (''smpl_params_incam'', g)] = Inl e"
  shows "\<exists>k\<in>set keys. resolve np gp k = Inl e"
  using assms
proof (induction keys arbitrary: g)
  case Nil
  then show ?case by simp
next
  case (Cons key keys)
  show ?case
  proof (cases "resolve np gp key")
    case (Inl e')
    with Cons.prems show ?thesis
      unfolding build_pred_step by simp
  next
    case (Inr arr)
    with Cons.prems Cons.IH show ?thesis
      unfolding build_pred_step by auto
  qed
qed

lemma build_pred_total:
  "(\<exists>e. build_pred np gp keys [(''smpl_params_global'', g), (''smpl_params_incam'', g)] = Inl e)
     \<longleftrightarrow> (\<exists>k\<in>set keys. \<exists>e. resolve np gp k = Inl e)"
proof
  assume "\<exists>e. build_pred np gp keys [(''smpl_params_global'', g), (''smpl_params_incam'', g)] = Inl e"
  then show "\<exists>k\<in>set keys. \<exists>e. resolve np gp k = Inl e"
    using build_pred_Inl by blast
next
  assume bad: "\<exists>k\<in>set keys. \<exists>e. resolve np gp k = Inl e"
  show "\<exists>e. build_pred np gp keys [(''smpl_params_global'', g), (''smpl_params_incam'', g)] = Inl e"
  proof (cases "build_pred np gp keys [(''smpl_params_global'', g), (''smpl_params_incam'', g)]")
    case (Inl e)
    then show ?thesis by blast
  next
    case (Inr pred_np)
    from build_pred_Inr [OF Inr] bad show ?thesis by fastforce
  qed
qed


subsection \<open>Paths\<close>


lemma join_nonempty: "xs \<noteq> [] \<Longrightarrow> last xs \<noteq> [] \<Longrightarrow> join sep xs \<noteq> []"
  by (induction sep xs rule: join.induct) auto

lemma name_nonempty: "name p \<noteq> '''' \<Longrightarrow> parts p \<noteq> [] \<and> last (parts p) \<noteq> ''''"
  by (auto simp: name_def split: if_splits)

lemma suffix_name: "suffix p \<noteq> '''' \<Longrightarrow> name p \<noteq> ''''"
  by (auto simp: suffix_def Let_def split: if_splits)



lemma default_suffix_last:
  assumes "default_suffix p sfx = Inr p'"
  shows "parts p' \<noteq> [] \<and> last (parts p') \<noteq> ''''"
proof (cases "suffix p = ''''")
  case True
  with assms have ws: "with_suffix p sfx = Inr p'" by (simp add: default_suffix_def)
  then have "name p \<noteq> ''''"
    by (auto simp: with_suffix_def split: if_splits)
  with ws True have "p' = p\<lparr>parts := butlast (parts p) @ [name p @ sfx]\<rparr>"
    by (auto simp: with_suffix_def split: if_splits)
  with \<open>name p \<noteq> ''''\<close> show ?thesis by simp
next
  case False
  with assms have "p' = p" by (simp add: default_suffix_def)
  with name_nonempty [OF suffix_name [OF False]] show ?thesis by simp
qed

lemma path_str_absolute_nonempty:
  assumes "parts p \<noteq> []" and "last (parts p) \<noteq> ''''"
  shows "path_str (absolute c p) \<noteq> ''''"
proof -
  have "parts (absolute c p) \<noteq> [] \<and> last (parts (absolute c p)) \<noteq> ''''"
    using assms by (simp add: absolute_def)
  then show ?thesis
    by (simp add: path_str_def join_nonempty)
qed


subsection \<open>The body, stage by stage\<close>

lemma save_smpl_body_no_global:
  "map_of b ''global'' = None \<Longrightarrow> save_smpl_body b p q w = (Inl (ValueError msg_no_global), w)"
  by (simp add: save_smpl_body_def lift_def)

lemma save_smpl_body_Inr:
  assumes "save_smpl_body b p q w = (Inr r, w')"
  shows "\<exists>g gp np pred_np npz_path pkl_path w1 w2 w3 nf s1 s2.
      map_of b ''global'' = Some g
    \<and> prepare_paths p q w = (Inr (npz_path, pkl_path), w1)
    \<and> items g = Inr gp
    \<and> convert_params gp [] = Inr np
    \<and> np_savez npz_path np w1 = (Inr (), w2)
    \<and> build_pred np gp required_keys empty_pred = Inr pred_np
    \<and> open_wb (path_str pkl_path) w2 = (Inr (path_str pkl_path), w3)
    \<and> pickle_dump pred_np (path_str pkl_path) HIGHEST_PROTOCOL w3 = (Inr (), w')
    \<and> num_frames_of pred_np = Inr nf
    \<and> stat_size npz_path w' = (Inr s1, w')
    \<and> stat_size pkl_path w' = (Inr s2, w')
    \<and> r = (path_str (absolute (cwd w') npz_path), info_text npz_path s1 pkl_path s2 nf)"
proof -
  from assms obtain g where g: "map_of b ''global'' = Some g"
    by (cases "map_of b ''global''") (auto simp: save_smpl_body_def lift_def)
  from assms g have "\<exists>npz_path pkl_path w1 gp np w2 pred_np h w3 w4 nf s1 w5 s2 w6.
      prepare_paths p q w = (Inr (npz_path, pkl_path), w1)
    \<and> items g = Inr gp \<and> convert_params gp [] = Inr np
    \<and> np_savez npz_path np w1 = (Inr (), w2)
    \<and> build_pred np gp required_keys empty_pred = Inr pred_np
    \<and> open_wb (path_str pkl_path) w2 = (Inr h, w3)
    \<and> pickle_dump pred_np h HIGHEST_PROTOCOL w3 = (Inr (), w4)
    \<and> num_frames_of pred_np = Inr nf
    \<and> stat_size npz_path w4 = (Inr s1, w5)
    \<and> stat_size pkl_path w5 = (Inr s2, w6)
    \<and> r = (path_str (absolute (cwd w6) npz_path), info_text npz_path s1 pkl_path s2 nf)
    \<and> w' = w6"
    by (simp add: save_smpl_body_def io_bind_Inr_iff lift_iff) blast
  then obtain npz_path pkl_path w1 gp np w2 pred_np h w3 w4 nf s1 w5 s2 w6 where
    st: "prepare_paths p q w = (Inr (npz_path, pkl_path), w1)"
      "items g = Inr gp" "convert_params gp [] = Inr np"
      "np_savez npz_path np w1 = (Inr (), w2)"
      "build_pred np gp required_keys empty_pred = Inr pred_np"
      "open_wb (path_str pkl_path) w2 = (Inr h, w3)"
      "pickle_dump pred_np h HIGHEST_PROTOCOL w3 = (Inr (), w4)"
      "num_frames_of pred_np = Inr nf"
      "stat_size npz_path w4 = (Inr s1, w5)"
      "stat_size pkl_path w5 = (Inr s2, w6)"
      "r = (path_str (absolute (cwd w6) npz_path), info_text npz_path s1 pkl_path s2 nf)"
      "w' = w6"
    by blast
  from st(6) have h: "h = path_str pkl_path" using open_wb_Inr by blast
  from st(9) have w5: "w5 = w4" by (rule stat_size_world)
  from st(10) have w6: "w6 = w5" by (rule stat_size_world)
  show ?thesis
    using g st h w5 w6 by auto
qed

lemma save_smpl_body_pred_fail:
  assumes "map_of b ''global'' = Some g"
    and "prepare_paths p q w = (Inr (npz_path, pkl_path), w1)"
    and "items g = Inr gp"
    and "convert_params gp [] = Inr np"
    and "np_savez npz_path np w1 = (Inr (), w2)"
    and "build_pred np gp required_keys empty_pred = Inl e"
  shows "save_smpl_body b p q w = (Inl e, w2)"
  using assms by (simp add: save_smpl_body_def io_bind_def lift_def)


text \<open>
  Every run, stage by stage: where it stopped, and the worlds in between. The
  events of \<open>prepare_paths\<close> are \<open>evs\<close>.
\<close>

lemma save_smpl_body_run:
  assumes g: "map_of b ''global'' = Some g"
    and run: "save_smpl_body b p q w = (r, w')"
  shows "\<exists>evs. list_all no_output evs \<and>
     ((\<exists>e. r = Inl e) \<and> events w' = events w @ evs
      \<or> (\<exists>npz_path pkl_path w1 gp np w2.
            prepare_paths p q w = (Inr (npz_path, pkl_path), w1) \<and> events w1 = events w @ evs
          \<and> items g = Inr gp \<and> convert_params gp [] = Inr np
          \<and> np_savez npz_path np w1 = (Inr (), w2)
          \<and> ((\<exists>e. r = Inl e \<and> build_pred np gp required_keys empty_pred = Inl e) \<and> w' = w2
             \<or> (\<exists>pred_np. build_pred np gp required_keys empty_pred = Inr pred_np
                 \<and> ((\<exists>e. r = Inl e) \<and> w' = w2
                    \<or> (\<exists>w3. open_wb (path_str pkl_path) w2 = (Inr (path_str pkl_path), w3)
                        \<and> ((\<exists>e. r = Inl e) \<and> w' = w3
                           \<or> pickle_dump pred_np (path_str pkl_path) HIGHEST_PROTOCOL w3
                                = (Inr (), w'))))))))"
proof -
  obtain r1 w1 where pp: "prepare_paths p q w = (r1, w1)"
    by (cases "prepare_paths p q w")
  from prepare_paths_events [OF pp] obtain evs where
    evs: "events w1 = events w @ evs" "list_all no_output evs"
    using mkdir_no_output by blast
  have early: ?thesis if "\<exists>e. r = Inl e" "w' = w1"
    using that evs by blast
  show ?thesis
  proof (cases r1)
    case (Inl e)
    with g pp run have "r = Inl e" "w' = w1"
      by (auto simp: save_smpl_body_def io_bind_def)
    then show ?thesis by (intro early) auto
  next
    case (Inr paths)
    obtain npz_path pkl_path where paths: "paths = (npz_path, pkl_path)" by (cases paths)
    note pp' = pp [unfolded Inr paths]
    show ?thesis
    proof (cases "items g")
      case (Inl e)
      with g pp' run have "r = Inl e" "w' = w1"
        by (auto simp: save_smpl_body_def io_bind_def lift_def)
      then show ?thesis by (intro early) auto
    next
      case gp: (Inr gp)
      show ?thesis
      proof (cases "convert_params gp []")
        case (Inl e)
        with g pp' gp run have "r = Inl e" "w' = w1"
          by (auto simp: save_smpl_body_def io_bind_def lift_def)
        then show ?thesis by (intro early) auto
      next
        case np: (Inr np)
        obtain r2 w2 where sv: "np_savez npz_path np w1 = (r2, w2)"
          by (cases "np_savez npz_path np w1")
        show ?thesis
        proof (cases r2)
          case (Inl e)
          with g pp' gp np sv run have re: "r = Inl e" "w' = w2"
            by (auto simp: save_smpl_body_def io_bind_def lift_def)
          from np_savez_Inl_events [OF sv [unfolded Inl]] obtain ab where
            ab: "events w2 = events w1 @ ab" "list_all no_output ab" by blast
          with evs re have "events w' = events w @ (evs @ ab)" "list_all no_output (evs @ ab)"
            by simp_all
          with re show ?thesis by blast
        next
          case (Inr u)
          with sv have sv': "np_savez npz_path np w1 = (Inr (), w2)" by simp
          have late: ?thesis
            if "(\<exists>e. r = Inl e \<and> build_pred np gp required_keys empty_pred = Inl e) \<and> w' = w2
             \<or> (\<exists>pred_np. build_pred np gp required_keys empty_pred = Inr pred_np
                 \<and> ((\<exists>e. r = Inl e) \<and> w' = w2
                    \<or> (\<exists>w3. open_wb (path_str pkl_path) w2 = (Inr (path_str pkl_path), w3)
                        \<and> ((\<exists>e. r = Inl e) \<and> w' = w3
                           \<or> pickle_dump pred_np (path_str pkl_path) HIGHEST_PROTOCOL w3
                                = (Inr (), w')))))"
            using that evs pp' gp np sv' by blast
          show ?thesis
          proof (cases "build_pred np gp required_keys empty_pred")
            case (Inl e)
            from save_smpl_body_pred_fail [OF g pp' gp np sv' Inl] run
            have "r = Inl e" "w' = w2" by simp_all
            with Inl show ?thesis by (intro late) auto
          next
            case bp: (Inr pred_np)
            obtain r3 w3 where op: "open_wb (path_str pkl_path) w2 = (r3, w3)"
              by (cases "open_wb (path_str pkl_path) w2")
            show ?thesis
            proof (cases r3)
              case (Inl e)
              with op have "w3 = w2" using open_wb_Inl by blast
              with Inl g pp' gp np sv' bp op run have "r = Inl e" "w' = w2"
                by (auto simp: save_smpl_body_def io_bind_def lift_def)
              with bp show ?thesis by (intro late) auto
            next
              case (Inr h)
              with op have h: "h = path_str pkl_path" using open_wb_Inr by blast
              note op' = op [unfolded Inr h]
              obtain r4 w4 where
                pd: "pickle_dump pred_np (path_str pkl_path) HIGHEST_PROTOCOL w3 = (r4, w4)"
                by (cases "pickle_dump pred_np (path_str pkl_path) HIGHEST_PROTOCOL w3")
              show ?thesis
              proof (cases r4)
                case (Inl e)
                with pd have "w4 = w3" using pickle_dump_Inl by blast
                with Inl g pp' gp np sv' bp op' pd run have "r = Inl e" "w' = w3"
                  by (auto simp: save_smpl_body_def io_bind_def lift_def)
                with bp op' show ?thesis by (intro late) auto
              next
                case (Inr u')
                with pd have
                  pd': "pickle_dump pred_np (path_str pkl_path) HIGHEST_PROTOCOL w3 = (Inr (), w4)"
                  by simp
                have "w' = w4"
                  using g pp' gp np sv' bp op' pd' run
                  by (auto simp: save_smpl_body_def io_bind_def lift_def
                      split: sum.splits prod.splits dest: stat_size_world)
                with bp op' pd' show ?thesis by (intro late) auto
              qed
            qed
          qed
        qed
      qed
    qed
  qed
qed

subsection \<open>The example runs\<close>

lemmas path_eval = Path_def splitroot_def suffix_def name_def rfind_def upt_rec parent_def
  path_str_def with_suffix_def startswith_def endswith_def default_suffix_def py_repr_def
  path_repr_def absolute_def is_absolute_def

lemmas os_eval = os_mkdir_def node_at_def path_error_def ancestors_def is_dir_def open_wb_def
  pickle_dump_def np_savez_def savez_target_def savez_members_def hasobject_def
  pickle_refusal_def array_bool_def stat_size_def io_bind_def lift_def Let_def
  example_file_of_def

lemma shape_zeros: "shape (zeros sh) = sh"
  by (simp add: zeros_def)

lemma dtype_zeros [simp]: "dtype (zeros sh) = ''float32''"
  by (simp add: zeros_def)

lemma hasobject_zeros [simp]: "\<not> hasobject (zeros sh)"
  by (simp add: zeros_def hasobject_def)

lemma example_paths:
  "prepare_paths ''output/motion'' ''output_pkl/motion'' example_world =
     (Inr (Path ''output/motion.npz'', Path ''output_pkl/motion.pkl''),
      world_after_dirs)"
  by (simp add: prepare_paths_def mkdir.simps path_eval os_eval example_world_def
      world_after_dirs_def)

lemma example_convert: "convert_params example_params [] = Inr example_arrays"
  by (simp add: example_params_def example_arrays_def to_array_def)

lemma example_build:
  "build_pred example_arrays example_params required_keys empty_pred = Inr example_pred"
  by (simp add: example_arrays_def required_keys_def empty_pred_def resolve_def setitem2_def
      example_pred_def)

lemma example_run:
  "save_smpl_body [(''global'', Dict example_params)] ''output/motion'' ''output_pkl/motion''
     example_world =
     (Inr (''/home/user/output/motion.npz'', example_info),
      world_after example_arrays example_pred)"
  apply (simp add: save_smpl_body_def example_paths example_convert example_build io_bind_def lift_def)
  apply (simp add: os_eval path_eval example_world_def num_frames_of_def example_pred_def
      example_arrays_def shape_zeros info_text_def fmt_kb_def str_nat.simps digit_char_def
      example_size_def example_info_def world_after_dirs_def world_after_def)
  done

lemma example_save:
  "save_smpl [(''global'', Dict example_params)] ''output/motion'' ''output_pkl/motion''
     example_world =
     ((''/home/user/output/motion.npz'', example_info),
      world_after example_arrays example_pred)"
  by (simp add: save_smpl_def example_run)

subsection \<open>Messages and the returned path\<close>


lemma save_smpl_body_path_nonempty:
  assumes "save_smpl_body b p q w = (Inr (path, info), w')"
  shows "path \<noteq> ''''"
proof -
  from save_smpl_body_Inr [OF assms] obtain npz_path pkl_path w1 where
    pp: "prepare_paths p q w = (Inr (npz_path, pkl_path), w1)"
    and path: "path = path_str (absolute (cwd w') npz_path)"
    by auto
  from prepare_paths_Inr [OF pp] have "default_suffix (Path p) ''.npz'' = Inr npz_path" by simp
  from default_suffix_last [OF this] path show ?thesis
    by (simp add: path_str_absolute_nonempty)
qed

lemma msg_no_global_mentions:
  "contains (''SaveSMPL failed: '' @ msg_no_global) (quoted ''global'')"
  by (simp add: msg_no_global_def quoted_def ni_def ga_fukumarete_imasen_def startswith_def)

subsection \<open>Events\<close>

lemma new_events_append: "events w' = events w @ evs \<Longrightarrow> new_events w w' = evs"
  by (simp add: new_events_def)

lemma archives_append: "archives (xs @ ys) = archives xs @ archives ys"
  by (induction xs rule: archives.induct) auto

lemma dumps_append: "dumps (xs @ ys) = dumps xs @ dumps ys"
  by (induction xs rule: dumps.induct) auto

lemma mkdirs_only:
  "list_all no_output evs \<Longrightarrow> archives evs = [] \<and> dumps evs = [] \<and> filter is_pkl_write evs = []"
proof (induction evs)
  case Nil
  then show ?case by simp
next
  case (Cons ev evs)
  then show ?case by (cases ev) auto
qed

subsection \<open>A call that succeeds\<close>

lemma save_smpl_success:
  assumes "save_smpl b p q w = ((path, info), w')" and "path \<noteq> ''''"
  shows "save_smpl_body b p q w = (Inr (path, info), w')"
proof -
  obtain r w1 where run: "save_smpl_body b p q w = (r, w1)"
    by (cases "save_smpl_body b p q w")
  show ?thesis
  proof (cases r)
    case (Inl e)
    with run assms show ?thesis by (simp add: save_smpl_def)
  next
    case (Inr res)
    with run assms show ?thesis by (simp add: save_smpl_def)
  qed
qed

lemma save_smpl_body_success:
  assumes "save_smpl_body b p q w = (Inr r, w')"
  shows "\<exists>g gp np pred_np npz_path pkl_path evs nf s1 s2.
      map_of b ''global'' = Some g \<and> items g = Inr gp
    \<and> convert_params gp [] = Inr np
    \<and> build_pred np gp required_keys empty_pred = Inr pred_np
    \<and> default_suffix (Path p) ''.npz'' = Inr npz_path
    \<and> default_suffix (Path q) ''.pkl'' = Inr pkl_path
    \<and> list_all no_output evs
    \<and> new_events w w' =
         evs @ [Savez (savez_target npz_path) (savez_members np), OpenWrite (path_str pkl_path),
                Dump (path_str pkl_path) pred_np HIGHEST_PROTOCOL]
    \<and> node_at w' (path_str pkl_path) = Some (PklFile [(pred_np, HIGHEST_PROTOCOL)])
    \<and> (\<not> same_file w' (savez_target npz_path) (path_str pkl_path)
          \<longrightarrow> node_at w' (savez_target npz_path) = Some (NpzFile (savez_members np)))
    \<and> num_frames_of pred_np = Inr nf
    \<and> r = (path_str (absolute (cwd w') npz_path), info_text npz_path s1 pkl_path s2 nf)"
proof -
  from save_smpl_body_Inr [OF assms]
  obtain g gp np pred_np npz_path pkl_path w1 w2 w3 nf s1 s2 where
    g: "map_of b ''global'' = Some g"
    and pp: "prepare_paths p q w = (Inr (npz_path, pkl_path), w1)"
    and gp: "items g = Inr gp"
    and np: "convert_params gp [] = Inr np"
    and sv: "np_savez npz_path np w1 = (Inr (), w2)"
    and bp: "build_pred np gp required_keys empty_pred = Inr pred_np"
    and op: "open_wb (path_str pkl_path) w2 = (Inr (path_str pkl_path), w3)"
    and pd: "pickle_dump pred_np (path_str pkl_path) HIGHEST_PROTOCOL w3 = (Inr (), w')"
    and nf: "num_frames_of pred_np = Inr nf"
    and r: "r = (path_str (absolute (cwd w') npz_path), info_text npz_path s1 pkl_path s2 nf)"
    by blast
  from prepare_paths_events [OF pp] obtain evs where
    evs: "events w1 = events w @ evs" "list_all no_output evs"
    using mkdir_no_output by blast
  note w2 = np_savez_Inr [OF sv]
  from open_wb_Inr [OF op] have
    w3: "w3 = w2\<lparr>fs := (fs w2)(file_of w2 (path_str pkl_path) \<mapsto> PlainFile []),
                  events := events w2 @ [OpenWrite (path_str pkl_path)]\<rparr>"
    by simp
  note w' = pickle_dump_Inr [OF pd]
  have ev: "events w' = events w @ evs @ [Savez (savez_target npz_path) (savez_members np),
      OpenWrite (path_str pkl_path), Dump (path_str pkl_path) pred_np HIGHEST_PROTOCOL]"
    by (simp add: w' w3 w2 evs)
  have f1: "node_at w' (path_str pkl_path) = Some (PklFile [(pred_np, HIGHEST_PROTOCOL)])"
    by (simp add: w' node_at_def)
  have f2: "node_at w' (savez_target npz_path) = Some (NpzFile (savez_members np))"
    if "\<not> same_file w' (savez_target npz_path) (path_str pkl_path)"
    using that by (simp add: w' w3 w2 node_at_def same_file_def)
  from prepare_paths_Inr [OF pp] have
    ds: "default_suffix (Path p) ''.npz'' = Inr npz_path"
        "default_suffix (Path q) ''.pkl'' = Inr pkl_path"
    by simp_all
  from g gp np bp ds evs(2) new_events_append [OF ev] f1 f2 nf r show ?thesis
    by blast
qed

lemma example_save_after:
  "save_smpl [(''global'', Dict example_params)] ''output/motion'' ''output_pkl/motion''
     example_world =
     ((''/home/user/output/motion.npz'', example_info), world_after example_arrays example_pred)"
  by (simp add: example_save world_after_def)

lemma extra_convert: "convert_params params_with_extra [] = Inr arrays_with_extra"
  by (simp add: params_with_extra_def arrays_with_extra_def example_params_def example_arrays_def
      to_array_def example_tensor_def numpy_def cpu_def detach_def startswith_def)

lemma extra_build:
  "build_pred arrays_with_extra params_with_extra required_keys empty_pred = Inr example_pred"
  by (simp add: arrays_with_extra_def example_arrays_def required_keys_def empty_pred_def
      resolve_def setitem2_def example_pred_def)

lemma extra_save:
  "save_smpl [(''global'', Dict params_with_extra)] ''output/motion'' ''output_pkl/motion''
     example_world =
     ((''/home/user/output/motion.npz'', example_info), world_after arrays_with_extra example_pred)"
  apply (simp add: save_smpl_def save_smpl_body_def example_paths extra_convert extra_build
      io_bind_def lift_def)
  apply (simp add: os_eval path_eval example_world_def num_frames_of_def example_pred_def
      example_arrays_def shape_zeros info_text_def fmt_kb_def str_nat.simps digit_char_def
      example_size_def example_info_def world_after_def arrays_with_extra_def
      world_after_dirs_def)
  done

lemma world_after_events:
  "new_events example_world (world_after kwds obj) =
     [Mkdir ''output'', Mkdir ''output_pkl'', Savez ''output/motion.npz'' kwds,
      OpenWrite ''output_pkl/motion.pkl'', Dump ''output_pkl/motion.pkl'' obj HIGHEST_PROTOCOL]"
  by (simp add: new_events_def world_after_def example_world_def)


subsection \<open>A call that fails\<close>

lemma build_pred_needs_keys:
  assumes "convert_params gp [] = Inr np"
    and "build_pred np gp required_keys empty_pred = Inr pred_np"
  shows "set required_keys \<subseteq> fst ` set gp"
proof
  fix k assume "k \<in> set required_keys"
  with build_pred_Inr [OF assms(2) [unfolded empty_pred_def]]
  obtain a where "resolve np gp k = Inr a" by blast
  from resolve_Inr_key [OF this] convert_params_keys [OF assms(1)]
  show "k \<in> fst ` set gp" by simp
qed

lemma build_pred_key_error:
  assumes "convert_params gp [] = Inr np"
    and "build_pred np gp required_keys empty_pred = Inl e"
  shows "\<exists>k. k \<in> set required_keys \<and> k \<notin> fst ` set gp \<and> e = KeyError (msg_missing_key k)"
proof -
  from build_pred_Inl [OF assms(2) [unfolded empty_pred_def]]
  obtain k where k: "k \<in> set required_keys" and r: "resolve np gp k = Inl e" by blast
  from convert_params_keys [OF assms(1)] have keys: "fst ` set np = fst ` set gp" by simp
  from r have "map_of np k = None \<and> e = KeyError (msg_missing_key k)"
    unfolding resolve_same_keys [OF keys] by (cases "map_of np k") auto
  with keys have "k \<notin> fst ` set gp \<and> e = KeyError (msg_missing_key k)"
    by (simp add: map_of_eq_None_iff)
  with k show ?thesis by blast
qed


subsection \<open>Default suffixes\<close>






lemma npz_is_not_pkl: "a @ ''.npz'' \<noteq> b @ ''.pkl''"
proof
  assume "a @ ''.npz'' = b @ ''.pkl''"
  then have "last (a @ ''.npz'') = last (b @ ''.pkl'')" by simp
  then show False by simp
qed

subsection \<open>The example runs that fail\<close>

lemma without_betas_convert:
  "convert_params params_without_betas [] = Inr arrays_without_betas"
  by (simp add: params_without_betas_def arrays_without_betas_def to_array_def)

lemma without_betas_build:
  "build_pred arrays_without_betas params_without_betas required_keys empty_pred
     = Inl (KeyError (msg_missing_key ''betas''))"
  by (simp add: arrays_without_betas_def params_without_betas_def required_keys_def
      empty_pred_def resolve_def setitem2_def)

lemma without_betas_savez:
  "np_savez (Path ''output/motion.npz'') arrays_without_betas
     (world_after_dirs)
     = (Inr (), world_after_archive ''output/motion.npz'' arrays_without_betas)"
  by (simp add: os_eval path_eval example_world_def world_after_archive_def
      arrays_without_betas_def world_after_dirs_def)

lemma without_betas_save:
  "save_smpl [(''global'', Dict params_without_betas)] ''output/motion'' ''output_pkl/motion''
     example_world =
     (('''', ''SaveSMPL failed: '' @ py_repr (msg_missing_key ''betas'')),
      world_after_archive ''output/motion.npz'' arrays_without_betas)"
  by (simp add: save_smpl_def save_smpl_body_def example_paths without_betas_convert
      without_betas_build without_betas_savez io_bind_def lift_def)

lemma dat_paths:
  "prepare_paths ''output/motion.dat'' ''output_pkl/motion'' example_world =
     (Inr (Path ''output/motion.dat'', Path ''output_pkl/motion.pkl''),
      world_after_dirs)"
  by (simp add: prepare_paths_def mkdir.simps path_eval os_eval example_world_def
      world_after_dirs_def)

lemma dat_savez:
  "np_savez (Path ''output/motion.dat'') arrays_without_betas
     (world_after_dirs)
     = (Inr (), world_after_archive ''output/motion.dat.npz'' arrays_without_betas)"
  by (simp add: os_eval path_eval example_world_def world_after_archive_def
      arrays_without_betas_def world_after_dirs_def)

lemma dat_save:
  "save_smpl [(''global'', Dict params_without_betas)] ''output/motion.dat'' ''output_pkl/motion''
     example_world =
     (('''', ''SaveSMPL failed: '' @ py_repr (msg_missing_key ''betas'')),
      world_after_archive ''output/motion.dat.npz'' arrays_without_betas)"
  by (simp add: save_smpl_def save_smpl_body_def dat_paths without_betas_convert
      without_betas_build dat_savez io_bind_def lift_def)

lemma orient_transl_convert:
  "convert_params params_orient_transl [] = Inr arrays_orient_transl"
  by (simp add: params_orient_transl_def arrays_orient_transl_def to_array_def)

lemma orient_transl_build:
  "build_pred arrays_orient_transl params_orient_transl required_keys empty_pred
     = Inl (KeyError (msg_missing_key ''body_pose''))"
  by (simp add: arrays_orient_transl_def params_orient_transl_def required_keys_def
      empty_pred_def resolve_def setitem2_def)

lemma orient_transl_savez:
  "np_savez (Path ''output/motion.npz'') arrays_orient_transl
     (world_after_dirs)
     = (Inr (), world_after_archive ''output/motion.npz'' arrays_orient_transl)"
  by (simp add: os_eval path_eval example_world_def world_after_archive_def
      arrays_orient_transl_def world_after_dirs_def)

lemma orient_transl_save:
  "save_smpl [(''global'', Dict params_orient_transl)] ''output/motion'' ''output_pkl/motion''
     example_world =
     (('''', ''SaveSMPL failed: '' @ py_repr (msg_missing_key ''body_pose'')),
      world_after_archive ''output/motion.npz'' arrays_orient_transl)"
  by (simp add: save_smpl_def save_smpl_body_def example_paths orient_transl_convert
      orient_transl_build orient_transl_savez io_bind_def lift_def)



lemma world_after_archive_events:
  "new_events example_world (world_after_archive npz_file kwds) =
     [Mkdir ''output'', Mkdir ''output_pkl'', Savez npz_file kwds]"
  by (simp add: new_events_def world_after_archive_def example_world_def)

lemma msg_betas_mentions:
  "contains (''SaveSMPL failed: '' @ py_repr (msg_missing_key ''betas'')) (quoted ''betas'')"
  by (simp add: msg_missing_key_def quoted_def ni_def ga_fukumarete_imasen_def startswith_def
      py_repr_def Let_def)

lemma msg_body_pose_omits:
  "\<not> contains (''SaveSMPL failed: '' @ py_repr (msg_missing_key ''body_pose'')) ''betas''"
  by (simp add: msg_missing_key_def quoted_def ni_def ga_fukumarete_imasen_def startswith_def
      py_repr_def Let_def)

subsection \<open>The names of the files a call writes\<close>








subsection \<open>The first required key that is missing\<close>

lemma build_pred_first_missing:
  assumes "fst ` set np = fst ` set gp"
  shows "case find (\<lambda>k. k \<notin> fst ` set gp) keys of
           None \<Rightarrow>
             (\<exists>pred_np. build_pred np gp keys
                 [(''smpl_params_global'', g), (''smpl_params_incam'', g)] = Inr pred_np)
         | Some k \<Rightarrow>
             build_pred np gp keys [(''smpl_params_global'', g), (''smpl_params_incam'', g)]
               = Inl (KeyError (msg_missing_key k))"
proof (induction keys arbitrary: g)
  case Nil
  show ?case by simp
next
  case (Cons key keys)
  note res = resolve_same_keys [OF assms, of key]
  show ?case
  proof (cases "key \<in> fst ` set gp")
    case False
    with assms have "map_of np key = None"
      by (simp add: map_of_eq_None_iff)
    with res have "resolve np gp key = Inl (KeyError (msg_missing_key key))"
      by simp
    with False show ?thesis
      unfolding build_pred_step by simp
  next
    case True
    with assms have "map_of np key \<noteq> None"
      by (simp add: map_of_eq_None_iff)
    then obtain arr where "map_of np key = Some arr" by blast
    with res have r: "resolve np gp key = Inr arr" by simp
    from True have f: "find (\<lambda>k. k \<notin> fst ` set gp) (key # keys)
        = find (\<lambda>k. k \<notin> fst ` set gp) keys"
      by simp
    from Cons.IH [of "AList.update key arr g"] show ?thesis
      unfolding build_pred_step f r by (simp split: option.splits)
  qed
qed

lemma first_missing_betas:
  "find (\<lambda>k. k \<notin> fst ` set params_without_betas) required_keys = Some ''betas''"
  by (simp add: params_without_betas_def required_keys_def)

lemma first_missing_body_pose:
  "find (\<lambda>k. k \<notin> fst ` set params_orient_transl) required_keys = Some ''body_pose''"
  by (simp add: params_orient_transl_def required_keys_def)

lemma missing_key_messages_differ: "msg_missing_key ''body_pose'' \<noteq> msg_missing_key ''betas''"
  by (simp add: msg_missing_key_def quoted_def)

subsection \<open>The members of an archive\<close>


lemma savez_members_allow_pickle: "map_of (savez_members kwds) ''allow_pickle'' = None"
  by (induction kwds) (auto simp: savez_members_def)


lemma savez_members_same:
  "''allow_pickle'' \<notin> fst ` set kwds \<Longrightarrow> savez_members kwds = kwds"
  by (induction kwds) (auto simp: savez_members_def)

subsection \<open>The example run with the key \<open>allow_pickle\<close>\<close>




subsection \<open>The example runs with paths that carry an extension\<close>




lemma world_after_pickle_events:
  "new_events example_world (world_after_pickle kwds obj) =
     [Mkdir ''output'', Mkdir ''output_pkl'', Savez ''output/motion.npz'' kwds,
      OpenWrite ''output_pkl/motion.pickle'',
      Dump ''output_pkl/motion.pickle'' obj HIGHEST_PROTOCOL]"
  by (simp add: new_events_def world_after_pickle_def example_world_def)

lemma dat_convert_paths:
  "suffix (Path ''output/motion.dat'') = ''.dat''"
  "path_str (Path ''output/motion.dat'') = ''output/motion.dat''"
  "savez_target (Path ''output/motion.dat'') = ''output/motion.dat.npz''"
  by (simp_all add: path_eval savez_target_def)

lemma dat_full_save:
  "save_smpl [(''global'', Dict example_params)] ''output/motion.dat'' ''output_pkl/motion''
     example_world =
     (('''', msg_no_file ''output/motion.dat''), world_after_dat example_arrays example_pred)"
  apply (simp add: save_smpl_def save_smpl_body_def dat_paths example_convert example_build
      io_bind_def lift_def)
  apply (simp add: os_eval path_eval example_world_def num_frames_of_def example_pred_def
      example_arrays_def shape_zeros str_nat.simps digit_char_def
      example_size_def msg_no_file_def quoted_def world_after_dat_def world_after_dirs_def)
  done

lemma world_after_archive_files:
  "node_at (world_after_archive ''output/motion.dat.npz'' kwds) ''output/motion.dat'' = None"
  "node_at (world_after_archive ''output/motion.dat.npz'' kwds) ''output/motion.dat.npz''
     = Some (NpzFile kwds)"
  "node_at (world_after_archive ''output/motion.npz'' kwds) ''output/motion.npz''
     = Some (NpzFile kwds)"
  by (simp_all add: world_after_archive_def node_at_def example_world_def example_file_of_def
      path_eval)

lemma world_after_dat_files:
  "node_at (world_after_dat kwds obj) ''output/motion.dat'' = None"
  "node_at (world_after_dat kwds obj) ''output/motion.dat.npz'' = Some (NpzFile kwds)"
  "node_at (world_after_dat kwds obj) ''output_pkl/motion.pkl''
     = Some (PklFile [(obj, HIGHEST_PROTOCOL)])"
  by (simp_all add: world_after_dat_def node_at_def example_world_def example_file_of_def
      path_eval)

subsection \<open>The archive is written before the required keys are checked\<close>

lemma key_check_after_archive:
  assumes "map_of smpl_params ''global'' = Some (Dict global_params)"
    and "convert_params global_params [] = Inr np_params"
    and "key \<in> set required_keys" and "key \<notin> fst ` set global_params"
    and "prepare_paths npz_output_path pkl_output_path w = (Inr (npz_path, pkl_path), w1)"
    and "np_savez npz_path np_params w1 = (Inr (), w2)"
  shows "(\<exists>k. find (\<lambda>k. k \<notin> fst ` set global_params) required_keys = Some k
          \<and> save_smpl smpl_params npz_output_path pkl_output_path w
              = (('''', ''SaveSMPL failed: '' @ py_repr (msg_missing_key k)), w2))
    \<and> node_at w2 (savez_target npz_path) = Some (NpzFile (savez_members np_params))
    \<and> archives (new_events w w2) = [(savez_target npz_path, savez_members np_params)]
    \<and> filter is_pkl_write (new_events w w2) = []
    \<and> (endswith (path_str npz_path) ''.npz'' \<longrightarrow> savez_target npz_path = path_str npz_path)"
proof -
  from convert_params_keys [OF assms(2)] have keys: "fst ` set np_params = fst ` set global_params"
    by simp
  from assms(3,4) have "find (\<lambda>k. k \<notin> fst ` set global_params) required_keys \<noteq> None"
    by (auto simp: find_None_iff)
  then obtain k where k: "find (\<lambda>k. k \<notin> fst ` set global_params) required_keys = Some k"
    by blast
  from build_pred_first_missing [OF keys, of required_keys "[]", folded empty_pred_def]
  have bp: "build_pred np_params global_params required_keys empty_pred
      = Inl (KeyError (msg_missing_key k))"
    unfolding k by simp
  have it: "items (Dict global_params) = Inr global_params" by simp
  from save_smpl_body_pred_fail [OF assms(1) assms(5) it assms(2) assms(6) bp]
  have "save_smpl smpl_params npz_output_path pkl_output_path w
      = (('''', ''SaveSMPL failed: '' @ py_repr (msg_missing_key k)), w2)"
    by (simp add: save_smpl_def)
  with k have first: "\<exists>k. find (\<lambda>k. k \<notin> fst ` set global_params) required_keys = Some k
          \<and> save_smpl smpl_params npz_output_path pkl_output_path w
              = (('''', ''SaveSMPL failed: '' @ py_repr (msg_missing_key k)), w2)"
    by blast
  from prepare_paths_events [OF assms(5)] obtain evs where
    evs: "events w1 = events w @ evs" "list_all no_output evs"
    using mkdir_no_output by blast
  note w2 = np_savez_Inr [OF assms(6)]
  have f: "node_at w2 (savez_target npz_path) = Some (NpzFile (savez_members np_params))"
    by (simp add: w2 node_at_def)
  have ev: "new_events w w2 = evs @ [Savez (savez_target npz_path) (savez_members np_params)]"
    by (simp add: new_events_def w2 evs)
  have a: "archives (new_events w w2) = [(savez_target npz_path, savez_members np_params)]"
    and n: "filter is_pkl_write (new_events w w2) = []"
    using mkdirs_only [OF evs(2)] by (simp_all add: ev archives_append)
  have t: "endswith (path_str npz_path) ''.npz'' \<longrightarrow> savez_target npz_path = path_str npz_path"
    by (simp add: savez_target_def)
  from first f a n t show ?thesis by (intro conjI)
qed

subsection \<open>The example run with two paths to one file\<close>





section \<open>The claims\<close>

text \<open>
  Claim C1. For every bundle, every two path strings and every world, \<open>save_smpl\<close>
  returns a pair and raises nothing: either the body of the \<open>try\<close> returned, and
  the pair is its result, whose first element is then not empty; or a step of the
  body raised \<open>e\<close>, and the pair is the empty string with the message
  \<open>"SaveSMPL failed: "\<close> followed by \<open>str(e)\<close>. The first element is empty exactly
  on failure.
\<close>

theorem save_smpl_never_raises:
  "(\<exists>path info w'. save_smpl_body smpl_params npz_output_path pkl_output_path w = (Inr (path, info), w')
       \<and> save_smpl smpl_params npz_output_path pkl_output_path w = ((path, info), w')
       \<and> path \<noteq> '''')
   \<or> (\<exists>e w'. save_smpl_body smpl_params npz_output_path pkl_output_path w = (Inl e, w')
       \<and> save_smpl smpl_params npz_output_path pkl_output_path w
            = (('''', ''SaveSMPL failed: '' @ py_str e), w')
       \<and> startswith (snd (fst (save_smpl smpl_params npz_output_path pkl_output_path w)))
            ''SaveSMPL failed: '')"
proof -
  obtain r w' where run: "save_smpl_body smpl_params npz_output_path pkl_output_path w = (r, w')"
    by (cases "save_smpl_body smpl_params npz_output_path pkl_output_path w")
  show ?thesis
  proof (cases r)
    case (Inl e)
    with run show ?thesis
      by (simp add: save_smpl_def startswith_def)
  next
    case (Inr res)
    obtain path info where res: "res = (path, info)" by (cases res)
    from run Inr res save_smpl_body_path_nonempty have "path \<noteq> ''''" by blast
    with run Inr res show ?thesis
      by (simp add: save_smpl_def)
  qed
qed

text \<open>
  Claim C2, as stated, fails in its last part: the \<open>KeyError\<close> of a required key
  does not fire whenever that key is absent from \<open>global_params\<close>. With a
  \<open>global\<close> namespace of \<open>global_orient\<close> and \<open>transl\<close> only, \<open>betas\<close> is
  required and absent, but the loop stops at \<open>body_pose\<close>, the first required
  key that is absent, and raises the \<open>KeyError\<close> of \<open>body_pose\<close>, which is another
  exception.
\<close>

theorem first_missing_key_counterexample:
  "convert_params params_orient_transl [] = Inr arrays_orient_transl
   \<and> ''betas'' \<in> set required_keys
   \<and> ''betas'' \<notin> fst ` set params_orient_transl
   \<and> build_pred arrays_orient_transl params_orient_transl required_keys empty_pred
       = Inl (KeyError (msg_missing_key ''body_pose''))
   \<and> KeyError (msg_missing_key ''body_pose'') \<noteq> KeyError (msg_missing_key ''betas'')"
proof -
  have k: "''betas'' \<in> set required_keys" "''betas'' \<notin> fst ` set params_orient_transl"
    by (simp_all add: required_keys_def params_orient_transl_def)
  have d: "KeyError (msg_missing_key ''body_pose'') \<noteq> KeyError (msg_missing_key ''betas'')"
    using missing_key_messages_differ by simp
  from orient_transl_convert k orient_transl_build d show ?thesis
    by (intro conjI)
qed

text \<open>
  Claim C2, amended. The fallback of the loop over the required keys is dead code.
  When the conversion loop has finished (so that the call reaches the loop over
  the required keys), \<open>np_params\<close> has exactly the keys of \<open>global_params\<close>; hence
  for every key the condition of the fallback branch (key absent from
  \<open>np_params\<close> and present in \<open>global_params\<close>) is false, and an iteration is a
  plain lookup in \<open>np_params\<close> that raises the \<open>KeyError\<close> of its key if and only
  if the key is absent from \<open>global_params\<close>. The loop raises if and only if a
  required key is absent from \<open>global_params\<close>, and then it raises the \<open>KeyError\<close>
  of the first required key that is absent, in the order \<open>body_pose\<close>,
  \<open>global_orient\<close>, \<open>transl\<close>, \<open>betas\<close>; otherwise it builds the record.
\<close>

theorem fallback_is_dead_code:
  assumes "convert_params global_params [] = Inr np_params"
  shows "fst ` set np_params = fst ` set global_params
    \<and> \<not> (map_of np_params key = None \<and> map_of global_params key \<noteq> None)
    \<and> resolve np_params global_params key =
        (case map_of np_params key of
           Some arr \<Rightarrow> Inr arr
         | None \<Rightarrow> Inl (KeyError (msg_missing_key key)))
    \<and> (resolve np_params global_params key = Inl (KeyError (msg_missing_key key))
          \<longleftrightarrow> key \<notin> fst ` set global_params)
    \<and> ((\<exists>e. build_pred np_params global_params required_keys empty_pred = Inl e)
          \<longleftrightarrow> (\<exists>k\<in>set required_keys. k \<notin> fst ` set global_params))
    \<and> (case find (\<lambda>k. k \<notin> fst ` set global_params) required_keys of
          None \<Rightarrow>
            (\<exists>pred_np. build_pred np_params global_params required_keys empty_pred
                = Inr pred_np)
        | Some k \<Rightarrow>
            build_pred np_params global_params required_keys empty_pred
              = Inl (KeyError (msg_missing_key k)))"
proof -
  from convert_params_keys [OF assms]
  have keys: "fst ` set np_params = fst ` set global_params" by simp
  have none: "map_of np_params k = None \<longleftrightarrow> k \<notin> fst ` set global_params" for k
    using keys by (simp add: map_of_eq_None_iff)
  have none': "map_of global_params k = None \<longleftrightarrow> k \<notin> fst ` set global_params" for k
    by (simp add: map_of_eq_None_iff)
  note res = resolve_same_keys [OF keys]
  have fails: "(\<exists>e. resolve np_params global_params k = Inl e) \<longleftrightarrow> k \<notin> fst ` set global_params"
    for k
    using none [of k] by (cases "map_of np_params k") (auto simp: res)
  have fails': "resolve np_params global_params k = Inl (KeyError (msg_missing_key k))
      \<longleftrightarrow> k \<notin> fst ` set global_params" for k
    using none [of k] by (cases "map_of np_params k") (auto simp: res)
  have loop: "(\<exists>e. build_pred np_params global_params required_keys empty_pred = Inl e)
      \<longleftrightarrow> (\<exists>k\<in>set required_keys. k \<notin> fst ` set global_params)"
    unfolding empty_pred_def build_pred_total using fails by simp
  have dead: "\<not> (map_of np_params key = None \<and> map_of global_params key \<noteq> None)"
    using none [of key] none' [of key] by simp
  note first = build_pred_first_missing [OF keys, of required_keys "[]", folded empty_pred_def]
  from keys dead res [of key] fails' [of key] loop first show ?thesis
    by (intro conjI)
qed

theorem fallback_is_dead_code_witness:
  "convert_params params_without_betas [] = Inr arrays_without_betas
   \<and> fst ` set arrays_without_betas = fst ` set params_without_betas
   \<and> find (\<lambda>k. k \<notin> fst ` set params_without_betas) required_keys = Some ''betas''
   \<and> build_pred arrays_without_betas params_without_betas required_keys empty_pred
       = Inl (KeyError (msg_missing_key ''betas''))"
proof -
  note t = fallback_is_dead_code [OF without_betas_convert, of "''betas''"]
  note keys = t [THEN conjunct1]
  note first = t [THEN conjunct2, THEN conjunct2, THEN conjunct2, THEN conjunct2, THEN conjunct2]
  from first have b: "build_pred arrays_without_betas params_without_betas required_keys empty_pred
       = Inl (KeyError (msg_missing_key ''betas''))"
    unfolding first_missing_betas by simp
  from without_betas_convert keys first_missing_betas b show ?thesis
    by (intro conjI)
qed

text \<open>
  Claim C3. For a bundle without the key \<open>global\<close>, whatever the two paths,
  \<open>save_smpl\<close> returns the empty string and a message that mentions \<open>'global'\<close>,
  and the world it returns is the world it was given: no directory is made, no
  file is written, no event is recorded.
\<close>

theorem no_global_no_effects:
  assumes "''global'' \<notin> fst ` set smpl_params"
  shows "save_smpl smpl_params npz_output_path pkl_output_path w
           = (('''', ''SaveSMPL failed: '' @ msg_no_global), w)
       \<and> contains (''SaveSMPL failed: '' @ msg_no_global) (quoted ''global'')"
proof -
  from assms have "map_of smpl_params ''global'' = None"
    by (simp add: map_of_eq_None_iff)
  then have "save_smpl smpl_params npz_output_path pkl_output_path w
           = (('''', ''SaveSMPL failed: '' @ msg_no_global), w)"
    by (simp add: save_smpl_def save_smpl_body_no_global)
  then show ?thesis
    using msg_no_global_mentions by (rule conjI)
qed

theorem no_global_no_effects_witness:
  "''global'' \<notin> fst ` set [(''incam'', Dict example_params)]
   \<and> save_smpl [(''incam'', Dict example_params)] ''output/motion'' ''output_pkl/motion'' example_world
       = (('''', ''SaveSMPL failed: '' @ msg_no_global), example_world)
   \<and> events example_world = []"
  using no_global_no_effects [of "[(''incam'', Dict example_params)]" "''output/motion''"
      "''output_pkl/motion''" example_world]
  by (simp add: example_world_def)

text \<open>
  Claim C4, as stated, fails: a bundle whose \<open>global\<close> namespace omits \<open>betas\<close>
  and \<open>body_pose\<close> gets the message of \<open>body_pose\<close>, the first required key that
  is missing, and that message does not name \<open>betas\<close>.
\<close>

theorem missing_betas_counterexample:
  "''betas'' \<notin> fst ` set params_orient_transl
   \<and> save_smpl [(''global'', Dict params_orient_transl)] ''output/motion'' ''output_pkl/motion''
       example_world
       = (('''', ''SaveSMPL failed: '' @ py_repr (msg_missing_key ''body_pose'')),
          world_after_archive ''output/motion.npz'' arrays_orient_transl)
   \<and> \<not> contains (''SaveSMPL failed: '' @ py_repr (msg_missing_key ''body_pose'')) ''betas''"
proof -
  have "''betas'' \<notin> fst ` set params_orient_transl"
    by (simp add: params_orient_transl_def)
  with orient_transl_save msg_body_pose_omits show ?thesis
    by (intro conjI)
qed

text \<open>
  Claim C4, amended. For every bundle whose \<open>global\<close> namespace is a dict without
  \<open>betas\<close>, \<open>save_smpl\<close> returns an empty first element, and the call neither
  opens the object file nor pickles anything. If moreover the call got as far as
  writing the archive, and \<open>body_pose\<close>, \<open>global_orient\<close> and \<open>transl\<close> are
  present, then the message is \<open>"SaveSMPL failed: "\<close> with the \<open>KeyError\<close> of
  \<open>betas\<close>, which names \<open>'betas'\<close>.
\<close>

theorem missing_betas_fails:
  assumes "map_of smpl_params ''global'' = Some (Dict global_params)"
    and "''betas'' \<notin> fst ` set global_params"
    and "save_smpl smpl_params npz_output_path pkl_output_path w = ((path, msg), w')"
  shows "path = ''''
    \<and> filter is_pkl_write (new_events w w') = []
    \<and> dumps (new_events w w') = []
    \<and> (archives (new_events w w') \<noteq> []
         \<and> ''body_pose'' \<in> fst ` set global_params
         \<and> ''global_orient'' \<in> fst ` set global_params
         \<and> ''transl'' \<in> fst ` set global_params
        \<longrightarrow> msg = ''SaveSMPL failed: '' @ py_repr (msg_missing_key ''betas'')
          \<and> contains msg (quoted ''betas''))"
proof -
  obtain r w1 where run: "save_smpl_body smpl_params npz_output_path pkl_output_path w = (r, w1)"
    by (cases "save_smpl_body smpl_params npz_output_path pkl_output_path w")
  have never: "build_pred np global_params required_keys empty_pred \<noteq> Inr pred_np"
    if "convert_params global_params [] = Inr np" for np pred_np
  proof
    assume "build_pred np global_params required_keys empty_pred = Inr pred_np"
    from build_pred_needs_keys [OF that this] have "''betas'' \<in> fst ` set global_params"
      by (simp add: required_keys_def)
    with assms(2) show False by simp
  qed
  from save_smpl_body_run [OF assms(1) run] obtain evs where
    evs: "list_all no_output evs"
    and c: "(\<exists>e. r = Inl e) \<and> events w1 = events w @ evs
      \<or> (\<exists>npz_path pkl_path w0 gp np w2.
            prepare_paths npz_output_path pkl_output_path w = (Inr (npz_path, pkl_path), w0)
          \<and> events w0 = events w @ evs
          \<and> items (Dict global_params) = Inr gp \<and> convert_params gp [] = Inr np
          \<and> np_savez npz_path np w0 = (Inr (), w2)
          \<and> ((\<exists>e. r = Inl e \<and> build_pred np gp required_keys empty_pred = Inl e) \<and> w1 = w2
             \<or> (\<exists>pred_np. build_pred np gp required_keys empty_pred = Inr pred_np)))"
    by blast
  from c show ?thesis
  proof
    assume a: "(\<exists>e. r = Inl e) \<and> events w1 = events w @ evs"
    then obtain e where e: "r = Inl e" by blast
    from run e assms(3) have "path = ''''" "w' = w1"
      by (simp_all add: save_smpl_def)
    moreover from a \<open>w' = w1\<close> have "new_events w w' = evs"
      by (simp add: new_events_def)
    ultimately show ?thesis
      using mkdirs_only [OF evs] by simp
  next
    assume "\<exists>npz_path pkl_path w0 gp np w2.
            prepare_paths npz_output_path pkl_output_path w = (Inr (npz_path, pkl_path), w0)
          \<and> events w0 = events w @ evs
          \<and> items (Dict global_params) = Inr gp \<and> convert_params gp [] = Inr np
          \<and> np_savez npz_path np w0 = (Inr (), w2)
          \<and> ((\<exists>e. r = Inl e \<and> build_pred np gp required_keys empty_pred = Inl e) \<and> w1 = w2
             \<or> (\<exists>pred_np. build_pred np gp required_keys empty_pred = Inr pred_np))"
    then obtain npz_path w0 gp np w2 where
      e0: "events w0 = events w @ evs"
      and gp: "items (Dict global_params) = Inr gp"
      and np: "convert_params gp [] = Inr np"
      and sv: "np_savez npz_path np w0 = (Inr (), w2)"
      and d: "(\<exists>e. r = Inl e \<and> build_pred np gp required_keys empty_pred = Inl e) \<and> w1 = w2
             \<or> (\<exists>pred_np. build_pred np gp required_keys empty_pred = Inr pred_np)"
      by blast
    from gp have gp': "gp = global_params" by simp
    from d never [OF np [unfolded gp']] obtain e where
      e: "r = Inl e" and bp: "build_pred np global_params required_keys empty_pred = Inl e"
      and w12: "w1 = w2"
      unfolding gp' by blast
    from run e assms(3) have res: "path = ''''" "msg = ''SaveSMPL failed: '' @ py_str e" "w' = w1"
      by (simp_all add: save_smpl_def)
    have ev: "new_events w w' = evs @ [Savez (savez_target npz_path) (savez_members np)]"
      by (simp add: new_events_def res w12 np_savez_Inr [OF sv] e0)
    have no: "filter is_pkl_write (new_events w w') = []" "dumps (new_events w w') = []"
      using mkdirs_only [OF evs] by (simp_all add: ev dumps_append)
    have m: "msg = ''SaveSMPL failed: '' @ py_repr (msg_missing_key ''betas'')"
      if "''body_pose'' \<in> fst ` set global_params"
        "''global_orient'' \<in> fst ` set global_params"
        "''transl'' \<in> fst ` set global_params"
    proof -
      from build_pred_key_error [OF np [unfolded gp'] bp] obtain k where
        k: "k \<in> set required_keys" "k \<notin> fst ` set global_params"
        and ek: "e = KeyError (msg_missing_key k)"
        by blast
      from k that have "k = ''betas''"
        by (auto simp: required_keys_def)
      with ek res show ?thesis by simp
    qed
    have "msg = ''SaveSMPL failed: '' @ py_repr (msg_missing_key ''betas'')
          \<and> contains msg (quoted ''betas'')"
      if "''body_pose'' \<in> fst ` set global_params"
        "''global_orient'' \<in> fst ` set global_params"
        "''transl'' \<in> fst ` set global_params"
      using m [OF that] msg_betas_mentions by simp
    with res(1) no show ?thesis by blast
  qed
qed

theorem missing_betas_fails_witness:
  "save_smpl [(''global'', Dict params_without_betas)] ''output/motion'' ''output_pkl/motion''
     example_world
     = (('''', ''SaveSMPL failed: '' @ py_repr (msg_missing_key ''betas'')),
        world_after_archive ''output/motion.npz'' arrays_without_betas)
   \<and> ''betas'' \<notin> fst ` set params_without_betas
   \<and> ''body_pose'' \<in> fst ` set params_without_betas
   \<and> ''global_orient'' \<in> fst ` set params_without_betas
   \<and> ''transl'' \<in> fst ` set params_without_betas
   \<and> archives (new_events example_world
         (world_after_archive ''output/motion.npz'' arrays_without_betas)) \<noteq> []
   \<and> filter is_pkl_write (new_events example_world
         (world_after_archive ''output/motion.npz'' arrays_without_betas)) = []
   \<and> contains (''SaveSMPL failed: '' @ py_repr (msg_missing_key ''betas'')) (quoted ''betas'')"
proof -
  have m: "map_of [(''global'', Dict params_without_betas)] ''global''
      = Some (Dict params_without_betas)"
    by simp
  have k: "''betas'' \<notin> fst ` set params_without_betas"
    "''body_pose'' \<in> fst ` set params_without_betas"
    "''global_orient'' \<in> fst ` set params_without_betas"
    "''transl'' \<in> fst ` set params_without_betas"
    by (simp_all add: params_without_betas_def)
  have a: "archives (new_events example_world
         (world_after_archive ''output/motion.npz'' arrays_without_betas)) \<noteq> []"
    by (simp add: world_after_archive_events)
  note t = missing_betas_fails [OF m k(1) without_betas_save]
  from t have f: "filter is_pkl_write (new_events example_world
         (world_after_archive ''output/motion.npz'' arrays_without_betas)) = []"
    by (elim conjE)
  from t have imp: "archives (new_events example_world
         (world_after_archive ''output/motion.npz'' arrays_without_betas)) \<noteq> []
         \<and> ''body_pose'' \<in> fst ` set params_without_betas
         \<and> ''global_orient'' \<in> fst ` set params_without_betas
         \<and> ''transl'' \<in> fst ` set params_without_betas
        \<longrightarrow> ''SaveSMPL failed: '' @ py_repr (msg_missing_key ''betas'')
             = ''SaveSMPL failed: '' @ py_repr (msg_missing_key ''betas'')
          \<and> contains (''SaveSMPL failed: '' @ py_repr (msg_missing_key ''betas''))
               (quoted ''betas'')"
    by (elim conjE)
  from imp [THEN mp, OF conjI [OF a conjI [OF k(2) conjI [OF k(3) k(4)]]]] have c:
    "contains (''SaveSMPL failed: '' @ py_repr (msg_missing_key ''betas'')) (quoted ''betas'')"
    by (elim conjE)
  from without_betas_save k a f c show ?thesis
    by (intro conjI)
qed

text \<open>
  Claim C5. When \<open>save_smpl\<close> succeeds (its first element is not empty), the call
  has pickled exactly one record, the object file holds it, and its namespaces
  \<open>smpl_params_global\<close> and \<open>smpl_params_incam\<close> map each of the four required
  keys to the same array.
\<close>

theorem namespaces_identical:
  assumes "save_smpl smpl_params npz_output_path pkl_output_path w = ((path, info), w')"
    and "path \<noteq> ''''"
  shows "\<exists>pkl_file pred_np g i.
      dumps (new_events w w') = [(pkl_file, pred_np, HIGHEST_PROTOCOL)]
    \<and> pickle_load pkl_file w' = Some pred_np
    \<and> map_of pred_np ''smpl_params_global'' = Some g
    \<and> map_of pred_np ''smpl_params_incam'' = Some i
    \<and> (\<forall>key\<in>set required_keys. \<exists>arr. map_of g key = Some arr \<and> map_of i key = Some arr)"
proof -
  from save_smpl_body_success [OF save_smpl_success [OF assms]]
  obtain gp np pred_np pkl_path npz_path evs where
    bp: "build_pred np gp required_keys empty_pred = Inr pred_np"
    and evs: "list_all no_output evs"
    and ev: "new_events w w' =
         evs @ [Savez (savez_target npz_path) (savez_members np), OpenWrite (path_str pkl_path),
                Dump (path_str pkl_path) pred_np HIGHEST_PROTOCOL]"
    and f: "node_at w' (path_str pkl_path) = Some (PklFile [(pred_np, HIGHEST_PROTOCOL)])"
    by blast
  from build_pred_Inr [OF bp [unfolded empty_pred_def]] obtain g where
    p: "pred_np = [(''smpl_params_global'', g), (''smpl_params_incam'', g)]"
    and k: "\<forall>k\<in>set required_keys. \<exists>a. resolve np gp k = Inr a \<and> map_of g k = Some a"
    by blast
  have d: "dumps (new_events w w') = [(path_str pkl_path, pred_np, HIGHEST_PROTOCOL)]"
    using mkdirs_only [OF evs] by (simp add: ev dumps_append)
  have l: "pickle_load (path_str pkl_path) w' = Some pred_np"
    by (simp add: pickle_load_def f)
  have g: "map_of pred_np ''smpl_params_global'' = Some g"
    and i: "map_of pred_np ''smpl_params_incam'' = Some g"
    by (simp_all add: p)
  from k have "\<forall>key\<in>set required_keys. \<exists>arr. map_of g key = Some arr \<and> map_of g key = Some arr"
    by blast
  with d l g i show ?thesis by blast
qed

theorem namespaces_identical_witness:
  "save_smpl [(''global'', Dict example_params)] ''output/motion'' ''output_pkl/motion''
     example_world
     = ((''/home/user/output/motion.npz'', example_info), world_after example_arrays example_pred)
   \<and> pickle_load ''output_pkl/motion.pkl'' (world_after example_arrays example_pred)
       = Some example_pred
   \<and> map_of example_pred ''smpl_params_global'' = Some example_arrays
   \<and> map_of example_pred ''smpl_params_incam'' = Some example_arrays
   \<and> map_of example_arrays ''betas'' = Some (zeros [10])"
proof -
  have ne: "''/home/user/output/motion.npz'' \<noteq> ''''" by simp
  from namespaces_identical [OF example_save_after ne]
  obtain pkl_file pred_np g i where
    d: "dumps (new_events example_world (world_after example_arrays example_pred))
          = [(pkl_file, pred_np, HIGHEST_PROTOCOL)]"
    and l: "pickle_load pkl_file (world_after example_arrays example_pred) = Some pred_np"
    and g: "map_of pred_np ''smpl_params_global'' = Some g"
    and i: "map_of pred_np ''smpl_params_incam'' = Some i"
    and k: "\<forall>key\<in>set required_keys. \<exists>arr. map_of g key = Some arr \<and> map_of i key = Some arr"
    by blast
  from d have pf: "pkl_file = ''output_pkl/motion.pkl''" and pr: "pred_np = example_pred"
    by (simp_all add: world_after_events)
  from g i pr have gi: "g = example_arrays" "i = example_arrays"
    by (simp_all add: example_pred_def)
  have b: "map_of example_arrays ''betas'' = Some (zeros [10])"
    by (simp add: example_arrays_def)
  from example_save_after l g i b show ?thesis
    unfolding pf pr gi by (intro conjI)
qed




text \<open>
  Claim C7. When \<open>save_smpl\<close> succeeds, the object file was opened for writing
  once and one object was pickled into it, with \<open>pickle.HIGHEST_PROTOCOL\<close>; the
  file holds exactly that object. The object is a dict of exactly the two
  namespaces \<open>smpl_params_global\<close> and \<open>smpl_params_incam\<close>, in this order, and
  the keys of each namespace are exactly \<open>body_pose\<close>, \<open>global_orient\<close>,
  \<open>transl\<close>, \<open>betas\<close>, whatever other keys \<open>global\<close> has.
\<close>

theorem object_file_structure:
  assumes "save_smpl smpl_params npz_output_path pkl_output_path w = ((path, info), w')"
    and "path \<noteq> ''''"
  shows "\<exists>pkl_file pred_np g i.
      filter is_pkl_write (new_events w w')
        = [OpenWrite pkl_file, Dump pkl_file pred_np HIGHEST_PROTOCOL]
    \<and> node_at w' pkl_file = Some (PklFile [(pred_np, HIGHEST_PROTOCOL)])
    \<and> pred_np = [(''smpl_params_global'', g), (''smpl_params_incam'', i)]
    \<and> map fst g = [''body_pose'', ''global_orient'', ''transl'', ''betas'']
    \<and> map fst i = [''body_pose'', ''global_orient'', ''transl'', ''betas'']"
proof -
  from save_smpl_body_success [OF save_smpl_success [OF assms]]
  obtain gp np pred_np pkl_path npz_path evs where
    bp: "build_pred np gp required_keys empty_pred = Inr pred_np"
    and evs: "list_all no_output evs"
    and ev: "new_events w w' =
         evs @ [Savez (savez_target npz_path) (savez_members np), OpenWrite (path_str pkl_path),
                Dump (path_str pkl_path) pred_np HIGHEST_PROTOCOL]"
    and f: "node_at w' (path_str pkl_path) = Some (PklFile [(pred_np, HIGHEST_PROTOCOL)])"
    by blast
  from build_pred_Inr [OF bp [unfolded empty_pred_def]] obtain g where
    p: "pred_np = [(''smpl_params_global'', g), (''smpl_params_incam'', g)]"
    and o: "distinct required_keys \<and> set required_keys \<inter> fst ` set ([] :: arrays) = {}
              \<longrightarrow> map fst g = map fst ([] :: arrays) @ required_keys"
    by blast
  from o have keys: "map fst g = [''body_pose'', ''global_orient'', ''transl'', ''betas'']"
    by (simp add: required_keys_def)
  have w: "filter is_pkl_write (new_events w w')
      = [OpenWrite (path_str pkl_path), Dump (path_str pkl_path) pred_np HIGHEST_PROTOCOL]"
    using mkdirs_only [OF evs] by (simp add: ev)
  from w f p keys have "filter is_pkl_write (new_events w w')
        = [OpenWrite (path_str pkl_path), Dump (path_str pkl_path) pred_np HIGHEST_PROTOCOL]
    \<and> node_at w' (path_str pkl_path) = Some (PklFile [(pred_np, HIGHEST_PROTOCOL)])
    \<and> pred_np = [(''smpl_params_global'', g), (''smpl_params_incam'', g)]
    \<and> map fst g = [''body_pose'', ''global_orient'', ''transl'', ''betas'']
    \<and> map fst g = [''body_pose'', ''global_orient'', ''transl'', ''betas'']"
    by (intro conjI)
  then show ?thesis by (intro exI)
qed

theorem object_file_structure_witness:
  "save_smpl [(''global'', Dict params_with_extra)] ''output/motion'' ''output_pkl/motion''
     example_world
     = ((''/home/user/output/motion.npz'', example_info), world_after arrays_with_extra example_pred)
   \<and> ''cam_K'' \<in> fst ` set params_with_extra
   \<and> node_at (world_after arrays_with_extra example_pred) ''output_pkl/motion.pkl''
       = Some (PklFile [(example_pred, HIGHEST_PROTOCOL)])
   \<and> map fst example_pred = [''smpl_params_global'', ''smpl_params_incam'']
   \<and> map fst example_arrays = [''body_pose'', ''global_orient'', ''transl'', ''betas'']"
proof -
  have ne: "''/home/user/output/motion.npz'' \<noteq> ''''" by simp
  from object_file_structure [OF extra_save ne]
  obtain pkl_file pred_np g i where
    w: "filter is_pkl_write (new_events example_world (world_after arrays_with_extra example_pred))
          = [OpenWrite pkl_file, Dump pkl_file pred_np HIGHEST_PROTOCOL]"
    and f: "node_at (world_after arrays_with_extra example_pred) pkl_file
          = Some (PklFile [(pred_np, HIGHEST_PROTOCOL)])"
    and p: "pred_np = [(''smpl_params_global'', g), (''smpl_params_incam'', i)]"
    and k: "map fst g = [''body_pose'', ''global_orient'', ''transl'', ''betas'']"
    by (elim exE conjE) (rule that)
  from w have pf: "pkl_file = ''output_pkl/motion.pkl''" and pr: "pred_np = example_pred"
    by (simp_all add: world_after_events)
  from p pr have g: "g = example_arrays"
    by (simp add: example_pred_def)
  have x: "''cam_K'' \<in> fst ` set params_with_extra"
    by (simp add: params_with_extra_def)
  from p have "map fst pred_np = [''smpl_params_global'', ''smpl_params_incam'']"
    by simp
  then have m: "map fst example_pred = [''smpl_params_global'', ''smpl_params_incam'']"
    unfolding pr .
  from extra_save x f m k show ?thesis
    unfolding pf pr g by (intro conjI)
qed







text \<open>
  Claim C10. When a bundle with convertible values lacks a required key, the
  archive is written before the key check, so it should be on disk, at the
  archive path, when the call returns the failure pair. The method puts the
  default suffix \<open>.npz\<close> on the archive path only when the extension is empty
  (line 61), and afterwards takes \<open>npz_path\<close> for the archive: it stats it and
  returns it. For an archive path with another extension \<open>np.savez\<close> appends
  \<open>.npz\<close> itself, and the archive is in another file than \<open>npz_path\<close>. With
  the archive path \<open>output/motion.dat\<close> and a bundle without \<open>betas\<close>, the call
  returns the failure pair of the missing key, the archive is in
  \<open>output/motion.dat.npz\<close>, and there is no file at the archive path. With the
  complete bundle and the same paths both files are written, the archive again to
  \<open>output/motion.dat.npz\<close>, and the call fails all the same: \<open>stat\<close> does not
  find \<open>output/motion.dat\<close>.
\<close>

theorem archive_path_slip:
  "suffix (Path ''output/motion.dat'') = ''.dat''
   \<and> ''betas'' \<in> set required_keys
   \<and> ''betas'' \<notin> fst ` set params_without_betas
   \<and> convert_params params_without_betas [] = Inr arrays_without_betas
   \<and> save_smpl [(''global'', Dict params_without_betas)] ''output/motion.dat''
         ''output_pkl/motion'' example_world
       = (('''', ''SaveSMPL failed: '' @ py_repr (msg_missing_key ''betas'')),
          world_after_archive ''output/motion.dat.npz'' arrays_without_betas)
   \<and> node_at (world_after_archive ''output/motion.dat.npz'' arrays_without_betas)
         ''output/motion.dat'' = None
   \<and> np_load ''output/motion.dat.npz''
         (world_after_archive ''output/motion.dat.npz'' arrays_without_betas)
       = Some arrays_without_betas
   \<and> save_smpl [(''global'', Dict example_params)] ''output/motion.dat''
         ''output_pkl/motion'' example_world
       = (('''', msg_no_file ''output/motion.dat''), world_after_dat example_arrays example_pred)
   \<and> node_at (world_after_dat example_arrays example_pred) ''output/motion.dat'' = None
   \<and> np_load ''output/motion.dat.npz'' (world_after_dat example_arrays example_pred)
       = Some example_arrays
   \<and> pickle_load ''output_pkl/motion.pkl'' (world_after_dat example_arrays example_pred)
       = Some example_pred"
proof -
  have k: "''betas'' \<in> set required_keys" "''betas'' \<notin> fst ` set params_without_betas"
    by (simp_all add: required_keys_def params_without_betas_def)
  have l1: "np_load ''output/motion.dat.npz''
         (world_after_archive ''output/motion.dat.npz'' arrays_without_betas)
       = Some arrays_without_betas"
    by (simp add: np_load_def world_after_archive_files)
  have l2: "np_load ''output/motion.dat.npz'' (world_after_dat example_arrays example_pred)
       = Some example_arrays"
    by (simp add: np_load_def world_after_dat_files)
  have l3: "pickle_load ''output_pkl/motion.pkl'' (world_after_dat example_arrays example_pred)
       = Some example_pred"
    by (simp add: pickle_load_def world_after_dat_files)
  from dat_convert_paths(1) k without_betas_convert dat_save
    world_after_archive_files(1) [of arrays_without_betas] l1 dat_full_save
    world_after_dat_files(1) [of example_arrays example_pred] l2 l3
  show ?thesis
    by (intro conjI)
qed


end
